theory Spec2Isabelle
  imports Main "HOL-Library.Word" "HOL-Library.Signed_Division"
begin

section \<open>Go values\<close>

text \<open>
  Go's \<open>int\<close> (taken at its 64-bit width), \<open>int64\<close> and \<open>time.Duration\<close> are 64-bit
  two's-complement words: \<open>+\<close> wraps, \<open>sint\<close> reads the signed value. A byte slice and a
  Go string are both lists of bytes. A clock reading is a number of nanoseconds on the
  process's monotonic clock.
\<close>

type_synonym go_int = "64 word"
type_synonym duration = "64 word"
type_synonym bytes = string
type_synonym instant = int

definition maxDuration :: int where
  "maxDuration = 2 ^ 63 - 1"

definition minDuration :: int where
  "minDuration = - (2 ^ 63)"

definition Second :: duration where
  "Second = 1000000000"

text \<open>
  \<open>t.Sub(u)\<close> of package time: the difference, and the largest (smallest) duration when
  the difference does not fit.
\<close>

definition Time_Sub :: "instant \<Rightarrow> instant \<Rightarrow> duration" where
  "Time_Sub t u =
     (let d = t - u
      in if maxDuration < d then word_of_int maxDuration
         else if d < minDuration then word_of_int minDuration
         else word_of_int d)"

text \<open>\<open>d.Truncate(m)\<close>: \<open>d\<close> itself when \<open>m <= 0\<close>, else \<open>d - d % m\<close> (Go's \<open>%\<close> truncates).\<close>

definition Truncate :: "duration \<Rightarrow> duration \<Rightarrow> duration" where
  "Truncate d m = (if sint m \<le> 0 then d else d - word_of_int (sint d smod sint m))"

text \<open>\<open>d.Milliseconds()\<close>: \<open>int64(d) / 1e6\<close>, Go's division truncating towards zero.\<close>

definition Milliseconds :: "duration \<Rightarrow> go_int" where
  "Milliseconds d = word_of_int (sint d sdiv 1000000)"

subsection \<open>Duration.String\<close>

definition digit_char :: "nat \<Rightarrow> char" where
  "digit_char d = char_of (48 + d)"

function fmtInt :: "nat \<Rightarrow> string" where
  "fmtInt v = (if v < 10 then [digit_char v] else fmtInt (v div 10) @ [digit_char (v mod 10)])"
  by pat_completeness auto
termination
  by (relation "measure id") auto

text \<open>
  \<open>fmtFrac\<close> writes the low \<open>prec\<close> decimal digits of \<open>v\<close> as a fraction, leaving out
  trailing zeros and the point itself when all digits are zero, and returns \<open>v / 10^prec\<close>.
  The source fills a buffer from the right; here the text to the left of the unit is
  returned.
\<close>

fun fmtFrac_loop :: "nat \<Rightarrow> nat \<Rightarrow> bool \<Rightarrow> string \<Rightarrow> string \<times> nat" where
  "fmtFrac_loop 0 v pr acc = ((if pr then CHR ''.'' # acc else acc), v)"
| "fmtFrac_loop (Suc i) v pr acc =
     (let d = v mod 10; pr' = (pr \<or> d \<noteq> 0)
      in fmtFrac_loop i (v div 10) pr' (if pr' then digit_char d # acc else acc))"

definition fmtFrac :: "nat \<Rightarrow> nat \<Rightarrow> string \<times> nat" where
  "fmtFrac v prec = fmtFrac_loop prec v False []"

definition Duration_String :: "duration \<Rightarrow> string" where
  "Duration_String d =
     (let neg = (sint d < 0);
          u = nat \<bar>sint d\<bar>;
          txt =
            (if u < 1000000000 then
               (if u = 0 then ''0s''
                else if u < 1000 then
                  (case fmtFrac u 0 of (fr, v) \<Rightarrow> fmtInt v @ fr @ ''ns'')
                else if u < 1000000 then
                  (case fmtFrac u 3 of (fr, v) \<Rightarrow> fmtInt v @ fr @ [char_of (194::nat), char_of (181::nat)] @ ''s'')
                else
                  (case fmtFrac u 6 of (fr, v) \<Rightarrow> fmtInt v @ fr @ ''ms''))
             else
               (case fmtFrac u 9 of (fr, v) \<Rightarrow>
                  (let secs = fmtInt (v mod 60) @ fr @ ''s''; mins = v div 60
                   in if 0 < mins then
                        (let hours = mins div 60
                         in (if 0 < hours then fmtInt hours @ ''h'' else [])
                            @ fmtInt (mins mod 60) @ ''m'' @ secs)
                      else secs)))
      in if neg then CHR ''-'' # txt else txt)"

section \<open>The response writer\<close>

text \<open>
  \<open>http.ResponseWriter\<close> is an interface. An implementation is a record of its methods
  over the state \<open>'b\<close> of the object: the header map \<open>Header()\<close> and \<open>Header().Set(k, v)\<close>,
  \<open>WriteHeader(code)\<close>, which may panic (\<open>None\<close>), and \<open>Write(b)\<close>, which returns the
  number of bytes written and whether an error came with it.
\<close>

record 'b ResponseWriter =
  rw_Header :: "'b \<Rightarrow> (string \<rightharpoonup> string list)"
  rw_Header_Set :: "string \<Rightarrow> string \<Rightarrow> 'b \<Rightarrow> 'b"
  rw_WriteHeader :: "go_int \<Rightarrow> 'b \<Rightarrow> 'b option"
  rw_Write :: "bytes \<Rightarrow> 'b \<Rightarrow> (go_int \<times> bool) \<times> 'b"

text \<open>
  \<^verbatim>\<open>type rwCapture struct { http.ResponseWriter; status int; size int }\<close>
  The two counters are the mutable part of the object and live in a heap cell; the
  embedded writer is fixed when the object is built and is part of the reference. The
  field \<open>size\<close> is called \<open>size_written\<close>, \<open>size\<close> being a constant of HOL.
\<close>

record rwCapture =
  status :: go_int
  size_written :: go_int

datatype writer = Base | Cap nat writer

record request =
  Method :: string
  URL_Path :: string
  RemoteAddr :: string

datatype log_value = StrV string | IntV go_int

record log_record =
  msg :: string
  attrs :: "(string \<times> log_value) list"

text \<open>
  What a request can touch: the server's response writer \<open>base\<close>, the heap of
  \<open>rwCapture\<close> objects, the records written to the default logger, the clock (its
  \<open>k\<close>-th reading is \<open>clock k\<close>, and \<open>ticks\<close> counts the readings taken) and the host
  name the operating system reports.
\<close>

record 'b world =
  base :: 'b
  heap :: "nat \<Rightarrow> rwCapture"
  next_addr :: nat
  logs :: "log_record list"
  clock :: "nat \<Rightarrow> instant"
  ticks :: nat
  os_Hostname :: string

type_synonym 'b handler = "writer \<Rightarrow> request \<Rightarrow> 'b world \<Rightarrow> 'b world option"

definition time_Now :: "'b world \<Rightarrow> instant \<times> 'b world" where
  "time_Now s = (clock s (ticks s), s\<lparr>ticks := Suc (ticks s)\<rparr>)"

definition time_Since :: "instant \<Rightarrow> 'b world \<Rightarrow> duration \<times> 'b world" where
  "time_Since t s = (case time_Now s of (n, s') \<Rightarrow> (Time_Sub n t, s'))"

subsection \<open>Method calls on a writer (main.go, rwCapture)\<close>

text \<open>
  \<^verbatim>\<open>func (w *rwCapture) WriteHeader(code int) { w.status = code; w.ResponseWriter.WriteHeader(code) }
  func (w *rwCapture) Write(b []byte) (int, error) {
      if w.status == 0 { w.status = http.StatusOK }
      n, err := w.ResponseWriter.Write(b)
      w.size += n
      return n, err }\<close>
  \<open>Header()\<close> is not overridden: the call goes to the embedded writer. \<open>Set\<close> replaces
  the values of a key by one value; the keys that main.go and \<open>http.Error\<close> set are
  written in canonical form already, so the key is stored as given.
\<close>

fun Header_Set :: "'b ResponseWriter \<Rightarrow> writer \<Rightarrow> string \<Rightarrow> string \<Rightarrow> 'b world \<Rightarrow> 'b world" where
  "Header_Set ops Base k v s = s\<lparr>base := rw_Header_Set ops k v (base s)\<rparr>"
| "Header_Set ops (Cap a w) k v s = Header_Set ops w k v s"

fun WriteHeader :: "'b ResponseWriter \<Rightarrow> writer \<Rightarrow> go_int \<Rightarrow> 'b world \<Rightarrow> 'b world option" where
  "WriteHeader ops Base c s =
     (case rw_WriteHeader ops c (base s) of None \<Rightarrow> None | Some b \<Rightarrow> Some (s\<lparr>base := b\<rparr>))"
| "WriteHeader ops (Cap a w) c s =
     WriteHeader ops w c (s\<lparr>heap := (heap s)(a := (heap s a)\<lparr>status := c\<rparr>)\<rparr>)"

fun Write :: "'b ResponseWriter \<Rightarrow> writer \<Rightarrow> bytes \<Rightarrow> 'b world \<Rightarrow> (go_int \<times> bool) \<times> 'b world" where
  "Write ops Base b s =
     (case rw_Write ops b (base s) of (res, b') \<Rightarrow> (res, s\<lparr>base := b'\<rparr>))"
| "Write ops (Cap a w) b s =
     (let s1 = (if status (heap s a) = 0
                then s\<lparr>heap := (heap s)(a := (heap s a)\<lparr>status := 200\<rparr>)\<rparr> else s)
      in case Write ops w b s1 of
           ((n, err), s2) \<Rightarrow>
             ((n, err),
              s2\<lparr>heap := (heap s2)(a := (heap s2 a)\<lparr>size_written := size_written (heap s2 a) + n\<rparr>)\<rparr>))"

section \<open>Package-level state and library calls used by the handlers\<close>

text \<open>The package variables of main.go (lines 30 and 42 to 50) that the handlers read.\<close>

record globals =
  startTime :: instant
  version :: string
  env :: string
  buildTime :: string
  commit :: string
  readyAfter :: duration
  indexHTML :: bytes

record AppInfo =
  Name :: string
  Version :: string
  Commit :: string
  Environment :: string
  BuildTime :: string
  Uptime :: string
  Hostname :: string

text \<open>
  \<open>json.NewEncoder(w).Encode(info)\<close> writes one JSON object and a newline in a single
  \<open>Write\<close>. The members are the fields of the struct in declaration order under the names
  of their \<open>json\<close> tags, none of which says \<open>omitempty\<close>. How the library quotes and
  escapes a string value is the parameter \<open>q\<close>.
\<close>

definition AppInfo_members :: "AppInfo \<Rightarrow> (string \<times> string) list" where
  "AppInfo_members i =
     [(''name'', Name i), (''version'', Version i), (''commit'', Commit i),
      (''environment'', Environment i), (''buildTime'', BuildTime i),
      (''uptime'', Uptime i), (''hostname'', Hostname i)]"

fun json_members :: "(string \<Rightarrow> string) \<Rightarrow> (string \<times> string) list \<Rightarrow> string" where
  "json_members q [] = []"
| "json_members q [(k, v)] = CHR 0x22 # k @ [CHR 0x22] @ '':'' @ q v"
| "json_members q ((k, v) # kvs) =
     CHR 0x22 # k @ [CHR 0x22] @ '':'' @ q v @ '','' @ json_members q kvs"

definition json_Encode :: "(string \<Rightarrow> string) \<Rightarrow> AppInfo \<Rightarrow> bytes" where
  "json_Encode q i = ''{'' @ json_members q (AppInfo_members i) @ ''}'' @ [CHR 0x0A]"

text \<open>
  The quoting of encoding/json on text it does not escape (printable ASCII other than
  the double quote, the backslash and the characters \<open><\<close>, \<open>>\<close>, \<open>&\<close>): the text between
  double quotes. It is used for concrete requests only.
\<close>

definition jsonString_plain :: "string \<Rightarrow> string" where
  "jsonString_plain v = CHR 0x22 # v @ [CHR 0x22]"

text \<open>
  \<open>http.Error\<close> and \<open>http.NotFound\<close> of net/http: two headers, the status, and the
  message with a newline in one \<open>Write\<close> (\<open>fmt.Fprintln\<close>), whose result is dropped.
  Recent releases of the library first delete Content-Length and a few other headers
  that describe a body; main.go sets none of them.
\<close>

definition http_Error :: "'b ResponseWriter \<Rightarrow> writer \<Rightarrow> string \<Rightarrow> go_int \<Rightarrow> 'b world \<Rightarrow> 'b world option" where
  "http_Error ops w err c s =
     (let s1 = Header_Set ops w ''Content-Type'' ''text/plain; charset=utf-8'' s;
          s2 = Header_Set ops w ''X-Content-Type-Options'' ''nosniff'' s1
      in case WriteHeader ops w c s2 of
           None \<Rightarrow> None
         | Some s3 \<Rightarrow> Some (snd (Write ops w (err @ [CHR 0x0A]) s3)))"

definition http_NotFound :: "'b ResponseWriter \<Rightarrow> 'b handler" where
  "http_NotFound ops w r s = http_Error ops w ''404 page not found'' 404 s"

text \<open>
  \<open>io.Copy(w, bytes.NewReader(b))\<close>: the reader has a \<open>WriteTo\<close> method, which \<open>io.Copy\<close>
  uses. It makes no call for empty data, and otherwise one \<open>Write\<close> of all of it,
  panicking when the writer reports more bytes than it was given.
\<close>

definition io_Copy_bytes :: "'b ResponseWriter \<Rightarrow> writer \<Rightarrow> bytes \<Rightarrow> 'b world \<Rightarrow> 'b world option" where
  "io_Copy_bytes ops w b s =
     (if b = [] then Some s
      else case Write ops w b s of
             ((n, err), s') \<Rightarrow> if int (length b) < sint n then None else Some s')"

section \<open>The handlers (main.go, lines 120 to 177)\<close>

definition writeJSON :: "'b ResponseWriter \<Rightarrow> writer \<Rightarrow> go_int \<Rightarrow> string \<Rightarrow> 'b world \<Rightarrow> 'b world option" where
  "writeJSON ops w st body s =
     (let s1 = Header_Set ops w ''Content-Type'' ''application/json'' s
      in case WriteHeader ops w st s1 of
           None \<Rightarrow> None
         | Some s2 \<Rightarrow> Some (snd (Write ops w body s2)))"

definition homeHandler :: "'b ResponseWriter \<Rightarrow> globals \<Rightarrow> 'b handler" where
  "homeHandler ops g w r s =
     (if URL_Path r \<noteq> ''/'' then http_NotFound ops w r s
      else io_Copy_bytes ops w (indexHTML g)
             (Header_Set ops w ''Content-Type'' ''text/html; charset=utf-8'' s))"

definition versionHandler :: "(string \<Rightarrow> string) \<Rightarrow> 'b ResponseWriter \<Rightarrow> globals \<Rightarrow> 'b handler" where
  "versionHandler q ops g w r s =
     (let hostname = os_Hostname s
      in case time_Since (startTime g) s of
           (d, s1) \<Rightarrow>
             (let info = \<lparr>Name = ''Harness Demo App'', Version = version g, Commit = commit g,
                          Environment = env g, BuildTime = buildTime g,
                          Uptime = Duration_String (Truncate d Second), Hostname = hostname\<rparr>;
                  s2 = Header_Set ops w ''Content-Type'' ''application/json'' s1
              in Some (snd (Write ops w (json_Encode q info) s2))))"

text \<open>\<open>infoHandler\<close> does not set \<open>Commit\<close>: the field keeps Go's zero value, the empty string.\<close>

definition infoHandler :: "(string \<Rightarrow> string) \<Rightarrow> 'b ResponseWriter \<Rightarrow> globals \<Rightarrow> 'b handler" where
  "infoHandler q ops g w r s =
     (let hostname = os_Hostname s
      in case time_Since (startTime g) s of
           (d, s1) \<Rightarrow>
             (let info = \<lparr>Name = ''Harness Demo App'', Version = version g, Commit = [],
                          Environment = env g, BuildTime = buildTime g,
                          Uptime = Duration_String (Truncate d Second), Hostname = hostname\<rparr>;
                  s2 = Header_Set ops w ''Content-Type'' ''application/json'' s1
              in Some (snd (Write ops w (json_Encode q info) s2))))"

definition healthHandler :: "'b ResponseWriter \<Rightarrow> 'b handler" where
  \<open>healthHandler ops w r s = writeJSON ops w 200 ''{"status":"healthy"}'' s\<close>

definition liveHandler :: "'b ResponseWriter \<Rightarrow> 'b handler" where
  \<open>liveHandler ops w r s = writeJSON ops w 200 ''{"status":"alive"}'' s\<close>

definition readyHandler :: "'b ResponseWriter \<Rightarrow> globals \<Rightarrow> 'b handler" where
  \<open>readyHandler ops g w r s =
     (case time_Since (startTime g) s of
        (d, s1) \<Rightarrow>
          if sint d < sint (readyAfter g)
          then writeJSON ops w 503 ''{"status":"warming"}'' s1
          else writeJSON ops w 200 ''{"status":"ready"}'' s1)\<close>

section \<open>The middleware (main.go, lines 188 to 239)\<close>

definition csp_value :: string where
  "csp_value =
     ''default-src 'self'; img-src 'self' data:; style-src 'self' 'unsafe-inline'; script-src 'self''
       @ [CHR 0x27]"

definition withSecurityHeaders :: "'b ResponseWriter \<Rightarrow> 'b handler \<Rightarrow> 'b handler" where
  "withSecurityHeaders ops next w r s =
     (let s1 = Header_Set ops w ''X-Content-Type-Options'' ''nosniff'' s;
          s2 = Header_Set ops w ''X-Frame-Options'' ''DENY'' s1;
          s3 = Header_Set ops w ''Referrer-Policy'' ''no-referrer'' s2;
          s4 = Header_Set ops w ''Content-Security-Policy'' csp_value s3
      in next w r s4)"

text \<open>
  \<open>cw := &rwCapture{ResponseWriter: w}\<close> allocates a fresh object at address \<open>a\<close> with both
  counters zero. The arguments of the log call are read after the inner handler has
  returned, the counters before the clock. When the inner handler panics nothing after
  the call runs, so no record is written.
\<close>

definition request_record :: "request \<Rightarrow> rwCapture \<Rightarrow> duration \<Rightarrow> log_record" where
  "request_record r c d =
     \<lparr>msg = ''request'',
      attrs = [(''method'', StrV (Method r)), (''path'', StrV (URL_Path r)),
               (''status'', IntV (status c)), (''bytes'', IntV (size_written c)),
               (''remote'', StrV (RemoteAddr r)), (''dur_ms'', IntV (Milliseconds d))]\<rparr>"

definition withLogging :: "'b handler \<Rightarrow> 'b handler" where
  "withLogging next w r s =
     (case time_Now s of
        (start, s1) \<Rightarrow>
          (let a = next_addr s1;
               s2 = s1\<lparr>heap := (heap s1)(a := \<lparr>status = 0, size_written = 0\<rparr>),
                       next_addr := Suc a\<rparr>
           in case next (Cap a w) r s2 of
                None \<Rightarrow> None
              | Some s3 \<Rightarrow>
                  (case time_Since start s3 of
                     (d, s4) \<Rightarrow> Some (s4\<lparr>logs := logs s4 @ [request_record r (heap s3 a) d]\<rparr>))))"

section \<open>The middleware chain (main.go, chain)\<close>

text \<open>
  \<^verbatim>\<open>func chain(h http.Handler, mws ...func(http.Handler) http.Handler) http.Handler {
      for i := len(mws) - 1; i >= 0; i-- { h = mws[i](h) }
      return h }\<close>
  The loop counts a signed index down from \<open>len(mws) - 1\<close>; the index is an \<open>int\<close> here
  so that the exit test \<open>i >= 0\<close> is the one of the source. Inside the loop
  \<open>0 \<le> i < len(mws)\<close>, so \<open>mws ! nat i\<close> is always in range.
\<close>

function chain_loop :: "int \<Rightarrow> 'h \<Rightarrow> ('h \<Rightarrow> 'h) list \<Rightarrow> 'h" where
  "chain_loop i h mws = (if 0 \<le> i then chain_loop (i - 1) ((mws ! nat i) h) mws else h)"
  by pat_completeness auto
termination
  by (relation "measure (\<lambda>(i, h, mws). nat (i + 1))") auto

definition chain :: "'h \<Rightarrow> ('h \<Rightarrow> 'h) list \<Rightarrow> 'h" where
  "chain h mws = chain_loop (int (length mws) - 1) h mws"

section \<open>Routing (main.go, lines 69 to 86)\<close>

text \<open>
  \<open>http.StripPrefix\<close> of net/http: the handler sees the path without the prefix, and a
  path that does not start with the prefix is answered with \<open>http.NotFound\<close>.
\<close>

definition strings_HasPrefix :: "string \<Rightarrow> string \<Rightarrow> bool" where
  "strings_HasPrefix p pre = (take (length pre) p = pre)"

definition strings_TrimPrefix :: "string \<Rightarrow> string \<Rightarrow> string" where
  "strings_TrimPrefix p pre = (if strings_HasPrefix p pre then drop (length pre) p else p)"

definition http_StripPrefix :: "'b ResponseWriter \<Rightarrow> string \<Rightarrow> 'b handler \<Rightarrow> 'b handler" where
  "http_StripPrefix ops pre h =
     (if pre = [] then h
      else (\<lambda>w r s.
              let p = strings_TrimPrefix (URL_Path r) pre
              in if length p < length (URL_Path r) then h w (r\<lparr>URL_Path := p\<rparr>) s
                 else http_NotFound ops w r s))"

text \<open>
  \<open>ServeMux\<close> of net/http, for patterns that are paths, as \<open>main\<close> registers them. Its
  \<open>mux.match\<close> picks the handler registered for exactly the path, and otherwise the one
  with the longest pattern among those that end in a slash and are a prefix of the path.
\<close>

definition ends_in_slash :: "string \<Rightarrow> bool" where
  "ends_in_slash p = (p \<noteq> [] \<and> last p = CHR ''/'')"

fun longest_subtree :: "(string \<times> 'h) list \<Rightarrow> string \<Rightarrow> (string \<times> 'h) option \<Rightarrow> (string \<times> 'h) option" where
  "longest_subtree [] path best = best"
| "longest_subtree ((p, h) # rs) path best =
     longest_subtree rs path
       (if ends_in_slash p \<and> strings_HasPrefix path p
           \<and> (case best of None \<Rightarrow> True | Some (p', h') \<Rightarrow> length p' < length p)
        then Some (p, h) else best)"

definition mux_match :: "(string \<times> 'h) list \<Rightarrow> string \<Rightarrow> 'h option" where
  "mux_match rs path =
     (case map_of rs path of
        Some h \<Rightarrow> Some h
      | None \<Rightarrow> map_option snd (longest_subtree rs path None))"

text \<open>
  Before it matches, the mux puts the path in canonical form (\<open>cleanPath\<close>: a leading
  slash, then \<open>path.Clean\<close>, which drops empty and \<open>.\<close> elements and resolves \<open>..\<close>
  against the element before it, then the trailing slash of the request put back), and
  it answers two kinds of requests itself, with a redirect: a path \<open>/tree\<close> that is not
  registered while \<open>/tree/\<close> is, and a path that is not in canonical form. A \<open>CONNECT\<close>
  request is not put in canonical form.
\<close>

fun split_slash :: "string \<Rightarrow> string list" where
  "split_slash [] = [[]]"
| "split_slash (c # cs) =
     (if c = CHR ''/'' then [] # split_slash cs
      else (case split_slash cs of [] \<Rightarrow> [[c]] | e # es \<Rightarrow> (c # e) # es))"

fun clean_elements :: "string list \<Rightarrow> string list \<Rightarrow> string list" where
  "clean_elements [] kept = kept"
| "clean_elements (e # es) kept =
     clean_elements es
       (if e = [] \<or> e = ''.'' then kept
        else if e = ''..'' then butlast kept
        else kept @ [e])"

definition path_Clean :: "string \<Rightarrow> string" where
  "path_Clean p =
     (case clean_elements (split_slash p) [] of
        [] \<Rightarrow> ''/''
      | es \<Rightarrow> concat (map (\<lambda>e. CHR ''/'' # e) es))"

definition cleanPath :: "string \<Rightarrow> string" where
  "cleanPath p =
     (if p = [] then ''/''
      else let p1 = (if hd p \<noteq> CHR ''/'' then CHR ''/'' # p else p);
               np = path_Clean p1
           in if last p1 = CHR ''/'' \<and> np \<noteq> ''/'' then np @ ''/'' else np)"

definition shouldRedirect :: "(string \<times> 'h) list \<Rightarrow> string \<Rightarrow> bool" where
  "shouldRedirect rs path =
     (if map_of rs path \<noteq> None then False
      else if path = [] then False
      else if map_of rs (path @ ''/'') \<noteq> None then last path \<noteq> CHR ''/''
      else False)"

text \<open>
  \<open>http.Redirect\<close> with status 301, as the mux calls it: the Location header, for a
  response that has no Content-Type yet an HTML Content-Type on \<open>GET\<close> and \<open>HEAD\<close>, the
  status, and on \<open>GET\<close> a short HTML body. The library percent-escapes the target in the
  header, HTML-escapes it in the body and appends the query of the request; here the
  target is the path as it stands.
\<close>

definition http_Redirect :: "'b ResponseWriter \<Rightarrow> string \<Rightarrow> 'b handler" where
  \<open>http_Redirect ops url w r s =
     (let hadCT = (rw_Header ops (base s) ''Content-Type'' \<noteq> None);
          s1 = Header_Set ops w ''Location'' url s;
          s2 = (if \<not> hadCT \<and> (Method r = ''GET'' \<or> Method r = ''HEAD'')
                then Header_Set ops w ''Content-Type'' ''text/html; charset=utf-8'' s1 else s1)
      in case WriteHeader ops w 301 s2 of
           None \<Rightarrow> None
         | Some s3 \<Rightarrow>
             if \<not> hadCT \<and> Method r = ''GET''
             then Some (snd (Write ops w
                    (''<a href="'' @ url @ ''">Moved Permanently</a>.'' @ [CHR 0x0A, CHR 0x0A]) s3))
             else Some s3)\<close>

definition mux_handler :: "'b ResponseWriter \<Rightarrow> (string \<times> 'b handler) list \<Rightarrow> string \<Rightarrow> 'b handler" where
  "mux_handler ops rs path =
     (case mux_match rs path of Some h \<Rightarrow> h | None \<Rightarrow> http_NotFound ops)"

definition mux_Handler :: "'b ResponseWriter \<Rightarrow> (string \<times> 'b handler) list \<Rightarrow> request \<Rightarrow> 'b handler" where
  "mux_Handler ops rs r =
     (if Method r = ''CONNECT'' then
        (if shouldRedirect rs (URL_Path r) then http_Redirect ops (URL_Path r @ ''/'')
         else mux_handler ops rs (URL_Path r))
      else
        (let path = cleanPath (URL_Path r)
         in if shouldRedirect rs path then http_Redirect ops (path @ ''/'')
            else if path \<noteq> URL_Path r then http_Redirect ops path
            else mux_handler ops rs (URL_Path r)))"

text \<open>
  The registrations of \<open>main\<close>, in its order. The file server over the embedded static
  directory and the metrics handler are collaborators from outside this file.
\<close>

definition routes ::
  "(string \<Rightarrow> string) \<Rightarrow> 'b ResponseWriter \<Rightarrow> globals \<Rightarrow> 'b handler \<Rightarrow> 'b handler
     \<Rightarrow> (string \<times> 'b handler) list" where
  "routes q ops g staticHandler metricsHandler =
     [(''/static/'', http_StripPrefix ops ''/static/'' staticHandler),
      (''/'', chain (homeHandler ops g) [withSecurityHeaders ops, withLogging]),
      (''/api/info'', chain (infoHandler q ops g) [withSecurityHeaders ops, withLogging]),
      (''/version'', chain (versionHandler q ops g) [withSecurityHeaders ops, withLogging]),
      (''/health'', chain (healthHandler ops) [withSecurityHeaders ops, withLogging]),
      (''/live'', chain (liveHandler ops) [withSecurityHeaders ops, withLogging]),
      (''/ready'', chain (readyHandler ops g) [withSecurityHeaders ops, withLogging]),
      (''/healthz'', chain (healthHandler ops) [withSecurityHeaders ops, withLogging]),
      (''/livez'', chain (liveHandler ops) [withSecurityHeaders ops, withLogging]),
      (''/readyz'', chain (readyHandler ops g) [withSecurityHeaders ops, withLogging]),
      (''/metrics'', metricsHandler)]"

text \<open>
  \<open>mux.ServeHTTP\<close>: the handler that \<open>mux.Handler\<close> chooses for the request serves it.
  A request is given by its method, path and remote address: the request target \<open>*\<close>,
  which has no path and which the mux answers 400, is left out, and so is the host of the
  request, no pattern of \<open>main\<close> naming a host.
\<close>

definition ServeHTTP ::
  "(string \<Rightarrow> string) \<Rightarrow> 'b ResponseWriter \<Rightarrow> globals \<Rightarrow> 'b handler \<Rightarrow> 'b handler \<Rightarrow> 'b handler" where
  "ServeHTTP q ops g staticHandler metricsHandler w r s =
     mux_Handler ops (routes q ops g staticHandler metricsHandler) r w r s"

section \<open>The response recorder of the tests\<close>

text \<open>
  main_test.go serves every request into an \<open>httptest.ResponseRecorder\<close> and reads its
  \<open>Code\<close>, \<open>Body\<close> and \<open>Header()\<close>. The recorder follows the \<open>http.ResponseWriter\<close>
  contract of net/http: the first \<open>WriteHeader\<close> fixes the status and the headers sent
  (\<open>snapHeader\<close>), later ones are ignored, a code outside 100 to 999 panics when it would
  take effect, and a \<open>Write\<close> before any \<open>WriteHeader\<close> sends status 200 first. A new
  recorder has \<open>Code\<close> 200. \<open>Write\<close> takes all the bytes and reports no error. The
  recorder's guess of a Content-Type for a response that has none at the first \<open>Write\<close>
  is left out: every handler of main.go sets Content-Type before it writes, and so does
  every sequence of calls that is run on a recorder below before its first \<open>Write\<close>, unless
  a \<open>WriteHeader\<close> has fixed the headers by then.
\<close>

record ResponseRecorder =
  HeaderMap :: "string \<rightharpoonup> string list"
  Body :: bytes
  Code :: go_int
  wroteHeader :: bool
  snapHeader :: "string \<rightharpoonup> string list"

definition NewRecorder :: ResponseRecorder where
  "NewRecorder = \<lparr>HeaderMap = Map.empty, Body = [], Code = 200, wroteHeader = False,
                  snapHeader = Map.empty\<rparr>"

definition Header_Get :: "(string \<rightharpoonup> string list) \<Rightarrow> string \<Rightarrow> string" where
  "Header_Get h k = (case h k of Some (v # vs) \<Rightarrow> v | _ \<Rightarrow> [])"

definition Recorder_Header_Set :: "string \<Rightarrow> string \<Rightarrow> ResponseRecorder \<Rightarrow> ResponseRecorder" where
  "Recorder_Header_Set k v rr = rr\<lparr>HeaderMap := (HeaderMap rr)(k \<mapsto> [v])\<rparr>"

definition Recorder_WriteHeader :: "go_int \<Rightarrow> ResponseRecorder \<Rightarrow> ResponseRecorder option" where
  "Recorder_WriteHeader c rr =
     (if wroteHeader rr then Some rr
      else if sint c < 100 \<or> 999 < sint c then None
      else Some (rr\<lparr>Code := c, wroteHeader := True, snapHeader := HeaderMap rr\<rparr>))"

definition Recorder_Write :: "bytes \<Rightarrow> ResponseRecorder \<Rightarrow> (go_int \<times> bool) \<times> ResponseRecorder" where
  "Recorder_Write b rr =
     (let rr1 = (if wroteHeader rr then rr
                 else rr\<lparr>Code := 200, wroteHeader := True, snapHeader := HeaderMap rr\<rparr>)
      in ((of_nat (length b), False), rr1\<lparr>Body := Body rr1 @ b\<rparr>))"

definition recorder :: "ResponseRecorder ResponseWriter" where
  "recorder = \<lparr>rw_Header = HeaderMap, rw_Header_Set = Recorder_Header_Set,
               rw_WriteHeader = Recorder_WriteHeader, rw_Write = Recorder_Write\<rparr>"

text \<open>The state in which the server hands a request to its handler: no capture objects, no records.\<close>

definition new_world :: "'b \<Rightarrow> (nat \<Rightarrow> instant) \<Rightarrow> string \<Rightarrow> 'b world" where
  "new_world b clk hn =
     \<lparr>base = b, heap = (\<lambda>a. \<lparr>status = 0, size_written = 0\<rparr>), next_addr = 0, logs = [],
      clock = clk, ticks = 0, os_Hostname = hn\<rparr>"

section \<open>Handlers as sequences of calls on their writer\<close>

text \<open>
  What a handler does to the writer it is given is a sequence of calls of the three
  methods. \<open>run_calls\<close> makes the calls in order and returns the byte counts that the
  \<open>Write\<close> calls returned; \<open>None\<close> when a call panics.
\<close>

datatype call = SetHeader string string | CallWriteHeader go_int | CallWrite bytes

fun is_WriteHeader :: "call \<Rightarrow> bool" where
  "is_WriteHeader (CallWriteHeader c) = True"
| "is_WriteHeader _ = False"

fun is_Write :: "call \<Rightarrow> bool" where
  "is_Write (CallWrite b) = True"
| "is_Write _ = False"

fun run_calls :: "'b ResponseWriter \<Rightarrow> writer \<Rightarrow> call list \<Rightarrow> 'b world \<Rightarrow> (go_int list \<times> 'b world) option" where
  "run_calls ops w [] s = Some ([], s)"
| "run_calls ops w (SetHeader k v # cs) s = run_calls ops w cs (Header_Set ops w k v s)"
| "run_calls ops w (CallWriteHeader c # cs) s =
     (case WriteHeader ops w c s of None \<Rightarrow> None | Some s' \<Rightarrow> run_calls ops w cs s')"
| "run_calls ops w (CallWrite b # cs) s =
     (case Write ops w b s of
        ((n, err), s') \<Rightarrow>
          (case run_calls ops w cs s' of
             None \<Rightarrow> None
           | Some (ns, s'') \<Rightarrow> Some (n # ns, s'')))"

definition calls_handler :: "'b ResponseWriter \<Rightarrow> call list \<Rightarrow> 'b handler" where
  "calls_handler ops cs w r s = map_option snd (run_calls ops w cs s)"

section \<open>Observations of a response and of a call sequence\<close>

text \<open>
  What a test reads from the recorder after the handler has returned: \<open>Code\<close> and
  \<open>Body\<close>, the header map \<open>Header()\<close>, and the headers of \<open>Result()\<close>, which are the ones
  fixed when the status was written, or the header map when no status was written.
\<close>

definition recorded :: "ResponseRecorder world option \<Rightarrow> (go_int \<times> bytes) option" where
  "recorded res = map_option (\<lambda>s. (Code (base s), Body (base s))) res"

definition Result_Header :: "ResponseRecorder \<Rightarrow> (string \<rightharpoonup> string list)" where
  "Result_Header rr = (if wroteHeader rr then snapHeader rr else HeaderMap rr)"

definition sent_header :: "ResponseRecorder world option \<Rightarrow> string \<Rightarrow> string option" where
  "sent_header res k = map_option (\<lambda>s. Header_Get (Result_Header (base s)) k) res"

definition sent_headers :: "ResponseRecorder world option \<Rightarrow> string list \<Rightarrow> string list option" where
  "sent_headers res ks = map_option (\<lambda>s. map (Header_Get (Result_Header (base s))) ks) res"

definition map_headers :: "ResponseRecorder world option \<Rightarrow> string list \<Rightarrow> string list option" where
  "map_headers res ks = map_option (\<lambda>s. map (Header_Get (HeaderMap (base s))) ks) res"

text \<open>
  The decimal numeral of a number, and the text of a whole number of seconds in the
  notation of Go durations: hours, minutes and seconds, as in \<open>1h2m5s\<close>, \<open>2m0s\<close> and \<open>7s\<close>,
  a larger unit being left out when the duration is shorter than one of it.
\<close>

function decimal :: "nat \<Rightarrow> string" where
  "decimal n =
     (if n < 10 then [''0123456789'' ! n]
      else decimal (n div 10) @ [''0123456789'' ! (n mod 10)])"
  by pat_completeness auto
termination
  by (relation "measure id") auto

definition seconds_text :: "nat \<Rightarrow> string" where
  "seconds_text n =
     (if 3600 \<le> n then decimal (n div 3600) @ ''h'' else [])
     @ (if 60 \<le> n then decimal (n div 60 mod 60) @ ''m'' else [])
     @ decimal (n mod 60) @ ''s''"

text \<open>
  The calls a handler makes as they arrive at the underlying writer, whatever wrappers
  they pass through on the way.
\<close>

definition rw_writeJSON :: "'b ResponseWriter \<Rightarrow> go_int \<Rightarrow> string \<Rightarrow> 'b \<Rightarrow> 'b option" where
  "rw_writeJSON ops st body b =
     map_option (\<lambda>b'. snd (rw_Write ops body b'))
       (rw_WriteHeader ops st (rw_Header_Set ops ''Content-Type'' ''application/json'' b))"

definition rw_NotFound :: "'b ResponseWriter \<Rightarrow> 'b \<Rightarrow> 'b option" where
  "rw_NotFound ops b =
     map_option (\<lambda>b'. snd (rw_Write ops (''404 page not found'' @ [CHR 0x0A]) b'))
       (rw_WriteHeader ops 404
          (rw_Header_Set ops ''X-Content-Type-Options'' ''nosniff''
             (rw_Header_Set ops ''Content-Type'' ''text/plain; charset=utf-8'' b)))"

definition rw_Copy :: "'b ResponseWriter \<Rightarrow> bytes \<Rightarrow> 'b \<Rightarrow> 'b option" where
  "rw_Copy ops d b =
     (if d = [] then Some b
      else case rw_Write ops d b of
             ((n, err), b') \<Rightarrow> if int (length d) < sint n then None else Some b')"

definition rw_security_headers :: "'b ResponseWriter \<Rightarrow> 'b \<Rightarrow> 'b" where
  "rw_security_headers ops b =
     rw_Header_Set ops ''Content-Security-Policy'' csp_value
       (rw_Header_Set ops ''Referrer-Policy'' ''no-referrer''
          (rw_Header_Set ops ''X-Frame-Options'' ''DENY''
             (rw_Header_Set ops ''X-Content-Type-Options'' ''nosniff'' b)))"

text \<open>The state in which the terminal handler of a chain \<open>[withSecurityHeaders, withLogging]\<close> starts.\<close>

definition enter_chain :: "'b ResponseWriter \<Rightarrow> 'b world \<Rightarrow> 'b world" where
  "enter_chain ops s =
     s\<lparr>base := rw_security_headers ops (base s),
       ticks := Suc (ticks s),
       heap := (heap s)(next_addr s := \<lparr>status = 0, size_written = 0\<rparr>),
       next_addr := Suc (next_addr s)\<rparr>"

text \<open>
  The status an \<open>rwCapture\<close> holds after a sequence of calls, started from \<open>st\<close>; the
  status code of the last \<open>WriteHeader\<close> call of a sequence, if it has one; and the calls
  that follow that last \<open>WriteHeader\<close> call.
\<close>

fun status_after :: "go_int \<Rightarrow> call list \<Rightarrow> go_int" where
  "status_after st [] = st"
| "status_after st (SetHeader k v # cs) = status_after st cs"
| "status_after st (CallWriteHeader c # cs) = status_after c cs"
| "status_after st (CallWrite b # cs) = status_after (if st = 0 then 200 else st) cs"

fun last_set_status :: "call list \<Rightarrow> go_int option" where
  "last_set_status [] = None"
| "last_set_status (x # cs) =
     (case last_set_status cs of
        Some c \<Rightarrow> Some c
      | None \<Rightarrow> (case x of CallWriteHeader c \<Rightarrow> Some c | _ \<Rightarrow> None))"

fun calls_after_last_set :: "call list \<Rightarrow> call list" where
  "calls_after_last_set [] = []"
| "calls_after_last_set (x # cs) =
     (if list_ex is_WriteHeader cs then calls_after_last_set cs
      else if is_WriteHeader x then cs else x # cs)"

fun strings_Contains :: "string \<Rightarrow> string \<Rightarrow> bool" where
  "strings_Contains [] sub = (sub = [])"
| "strings_Contains (c # cs) sub = (strings_HasPrefix (c # cs) sub \<or> strings_Contains cs sub)"

section \<open>The scenarios of the tests\<close>

text \<open>
  The fixtures of main_test.go: a request as \<open>httptest.NewRequest\<close> builds it, a new
  recorder, the overridden metadata of \<open>TestVersionHandler\<close>, and a clock that reads 5 s
  at the first reading of the request and 1 ms more at each later one.
\<close>

definition test_request :: "string \<Rightarrow> request" where
  "test_request p = \<lparr>Method = ''GET'', URL_Path = p, RemoteAddr = ''192.0.2.1:1234''\<rparr>"

definition test_globals :: "instant \<Rightarrow> duration \<Rightarrow> globals" where
  "test_globals start ra =
     \<lparr>startTime = start, version = ''vTest'', env = ''development'',
      buildTime = ''2025-01-01T00:00:00Z'', commit = ''abc123'', readyAfter = ra,
      indexHTML = ''<h1>Harness Demo App</h1>''\<rparr>"

definition test_world :: "ResponseRecorder world" where
  "test_world = new_world NewRecorder (\<lambda>k. 5000000000 + 1000000 * int k) ''host''"

section \<open>Properties of the chain\<close>

lemma chain_loop_stop: "i < 0 \<Longrightarrow> chain_loop i h mws = h"
  by (subst chain_loop.simps) simp

lemma chain_loop_step:
  "0 \<le> i \<Longrightarrow> chain_loop i h mws = chain_loop (i - 1) ((mws ! nat i) h) mws"
  by (subst chain_loop.simps) simp

lemma chain_loop_take:
  "n \<le> length mws \<Longrightarrow> chain_loop (int n - 1) h mws = foldr (\<lambda>m k. m k) (take n mws) h"
proof (induction n arbitrary: h)
  case 0
  then show ?case by (simp add: chain_loop_stop)
next
  case (Suc n)
  from Suc.prems have lt: "n < length mws" by simp
  have "chain_loop (int (Suc n) - 1) h mws = chain_loop (int n - 1) ((mws ! n) h) mws"
    using chain_loop_step [of "int n" h mws] by simp
  also have "\<dots> = foldr (\<lambda>m k. m k) (take n mws) ((mws ! n) h)"
    using Suc.IH [of "(mws ! n) h"] lt by simp
  also have "\<dots> = foldr (\<lambda>m k. m k) (take (Suc n) mws) h"
    using lt by (simp add: take_Suc_conv_app_nth)
  finally show ?case .
qed

lemma chain_foldr: "chain h mws = foldr (\<lambda>m k. m k) mws h"
  using chain_loop_take [of "length mws" mws h] by (simp add: chain_def)

text \<open>
  C3. The handler built by \<open>chain\<close> from a terminal handler \<open>T\<close> and the list \<open>[A, B]\<close> is
  the manual nesting \<open>A (B T)\<close>; for a list of any length the first middleware is the
  outermost wrapper (it is applied last, around the chain of the rest), and the whole
  composition is the right fold of the list, which keeps the order of the list.
\<close>

theorem chain_order_preserving:
  "chain T [A, B] = A (B T)
   \<and> chain T (m # ms) = m (chain T ms)
   \<and> chain T (ms @ [m]) = chain (m T) ms
   \<and> chain T mws = foldr (\<lambda>m k. m k) mws T"
  by (simp add: chain_foldr)

section \<open>Durations\<close>

lemma sint64_of_int: "- (2 ^ 63) \<le> d \<Longrightarrow> d < 2 ^ 63 \<Longrightarrow> sint (word_of_int d :: 64 word) = d"
  by (simp add: sint_sbintrunc' signed_take_bit_int_eq_self)

lemma sint64_range: "- (2 ^ 63) \<le> sint (x :: 64 word) \<and> sint x < 2 ^ 63"
  using sint_ge [of x] sint_lt [of x] by simp

lemma sint_Time_Sub:
  "sint (Time_Sub t u) =
     (if maxDuration < t - u then maxDuration
      else if t - u < minDuration then minDuration else t - u)"
  unfolding Time_Sub_def Let_def
  using sint64_of_int [of "t - u"] sint64_of_int [of maxDuration] sint64_of_int [of minDuration]
  by (simp add: maxDuration_def minDuration_def del: of_int_diff)

lemma Time_Sub_less_iff:
  "u \<le> t \<Longrightarrow> sint (Time_Sub t u) < sint (r :: 64 word) \<longleftrightarrow> t - u < sint r"
  using sint64_range [of r] by (auto simp: sint_Time_Sub maxDuration_def minDuration_def)

lemma Time_Sub_mono: "t1 \<le> t2 \<Longrightarrow> sint (Time_Sub t1 u) \<le> sint (Time_Sub t2 u)"
  by (auto simp: sint_Time_Sub maxDuration_def minDuration_def)

section \<open>A wrapper passes every call on to the underlying writer\<close>

lemma base_Header_Set [simp]: "base (Header_Set ops w k v s) = rw_Header_Set ops k v (base s)"
  by (induction w arbitrary: s) simp_all

lemma rest_Header_Set [simp]:
  "clock (Header_Set ops w k v s) = clock s"
  "ticks (Header_Set ops w k v s) = ticks s"
  "os_Hostname (Header_Set ops w k v s) = os_Hostname s"
  "logs (Header_Set ops w k v s) = logs s"
  "heap (Header_Set ops w k v s) = heap s"
  "next_addr (Header_Set ops w k v s) = next_addr s"
  by (induction w arbitrary: s; simp)+

lemma base_WriteHeader: "map_option base (WriteHeader ops w c s) = rw_WriteHeader ops c (base s)"
  by (induction w arbitrary: s) (simp_all split: option.splits)

lemma WriteHeader_None_iff:
  "WriteHeader ops w c s = None \<longleftrightarrow> rw_WriteHeader ops c (base s) = None"
proof -
  have "rw_WriteHeader ops c (base s) = None \<longleftrightarrow> map_option base (WriteHeader ops w c s) = None"
    by (simp add: base_WriteHeader)
  then show ?thesis by simp
qed

lemma WriteHeader_Some_base:
  "WriteHeader ops w c s = Some s' \<Longrightarrow> rw_WriteHeader ops c (base s) = Some (base s')"
  using base_WriteHeader [of ops w c s] by simp

lemma rest_WriteHeader:
  "WriteHeader ops w c s = Some s' \<Longrightarrow>
     clock s' = clock s \<and> ticks s' = ticks s \<and> os_Hostname s' = os_Hostname s
     \<and> logs s' = logs s \<and> next_addr s' = next_addr s"
proof (induction w arbitrary: s)
  case Base
  then show ?case by (auto split: option.splits)
next
  case (Cap a w)
  from Cap.IH [of "s\<lparr>heap := (heap s)(a := (heap s a)\<lparr>status := c\<rparr>)\<rparr>"] Cap.prems
  show ?case by simp
qed

lemma Write_base:
  "fst (Write ops w b s) = fst (rw_Write ops b (base s))
   \<and> base (snd (Write ops w b s)) = snd (rw_Write ops b (base s))"
proof (induction w arbitrary: s)
  case Base
  show ?case by (simp split: prod.splits)
next
  case (Cap a w)
  define s1 where
    "s1 = (if status (heap s a) = 0
           then s\<lparr>heap := (heap s)(a := (heap s a)\<lparr>status := 200\<rparr>)\<rparr> else s)"
  have b1: "base s1 = base s" by (simp add: s1_def)
  obtain n err s2 where w: "Write ops w b s1 = ((n, err), s2)"
    by (metis surj_pair)
  from Cap.IH [of s1] w b1 show ?case
    by (simp add: s1_def [symmetric] Let_def case_prod_beta)
qed

lemma base_Write [simp]: "base (snd (Write ops w b s)) = snd (rw_Write ops b (base s))"
  by (simp add: Write_base)

lemma fst_Write [simp]: "fst (Write ops w b s) = fst (rw_Write ops b (base s))"
  by (simp add: Write_base)

lemma rest_Write_aux:
  "clock (snd (Write ops w b s)) = clock s \<and> ticks (snd (Write ops w b s)) = ticks s
   \<and> os_Hostname (snd (Write ops w b s)) = os_Hostname s
   \<and> logs (snd (Write ops w b s)) = logs s \<and> next_addr (snd (Write ops w b s)) = next_addr s"
proof (induction w arbitrary: s)
  case Base
  show ?case by (simp split: prod.splits)
next
  case (Cap a w)
  define s1 where
    "s1 = (if status (heap s a) = 0
           then s\<lparr>heap := (heap s)(a := (heap s a)\<lparr>status := 200\<rparr>)\<rparr> else s)"
  have r1: "clock s1 = clock s" "ticks s1 = ticks s" "os_Hostname s1 = os_Hostname s"
    "logs s1 = logs s" "next_addr s1 = next_addr s"
    by (simp_all add: s1_def)
  obtain n err s2 where w: "Write ops w b s1 = ((n, err), s2)"
    by (metis surj_pair)
  from Cap.IH [of s1] w r1 show ?case
    by (simp add: s1_def [symmetric] Let_def)
qed

lemma rest_Write [simp]:
  "clock (snd (Write ops w b s)) = clock s"
  "ticks (snd (Write ops w b s)) = ticks s"
  "os_Hostname (snd (Write ops w b s)) = os_Hostname s"
  "logs (snd (Write ops w b s)) = logs s"
  "next_addr (snd (Write ops w b s)) = next_addr s"
  by (simp_all add: rest_Write_aux)

section \<open>What each handler sends to the underlying writer\<close>

lemma base_writeJSON:
  "map_option base (writeJSON ops w st body s) = rw_writeJSON ops st body (base s)"
proof (cases "WriteHeader ops w st (Header_Set ops w ''Content-Type'' ''application/json'' s)")
  case None
  from None [unfolded WriteHeader_None_iff] None show ?thesis
    by (simp add: writeJSON_def rw_writeJSON_def)
next
  case (Some s2)
  from WriteHeader_Some_base [OF Some] Some show ?thesis
    by (simp add: writeJSON_def rw_writeJSON_def)
qed

lemma base_NotFound:
  "map_option base (http_NotFound ops w r s) = rw_NotFound ops (base s)"
proof (cases "WriteHeader ops w 404
                (Header_Set ops w ''X-Content-Type-Options'' ''nosniff''
                   (Header_Set ops w ''Content-Type'' ''text/plain; charset=utf-8'' s))")
  case None
  from None [unfolded WriteHeader_None_iff] None show ?thesis
    by (simp add: http_NotFound_def http_Error_def rw_NotFound_def)
next
  case (Some s2)
  from WriteHeader_Some_base [OF Some] Some show ?thesis
    by (simp add: http_NotFound_def http_Error_def rw_NotFound_def)
qed

lemma base_Copy:
  "map_option base (io_Copy_bytes ops w d s) = rw_Copy ops d (base s)"
proof (cases "d = []")
  case True
  then show ?thesis by (simp add: io_Copy_bytes_def rw_Copy_def)
next
  case False
  obtain n err s' where w: "Write ops w d s = ((n, err), s')"
    by (metis surj_pair)
  obtain m e b' where b: "rw_Write ops d (base s) = ((m, e), b')"
    by (metis surj_pair)
  from Write_base [of ops w d s] w b have "n = m" "base s' = b'" by simp_all
  with False w b show ?thesis by (simp add: io_Copy_bytes_def rw_Copy_def)
qed

lemma base_homeHandler:
  "map_option base (homeHandler ops g w r s) =
     (if URL_Path r \<noteq> ''/'' then rw_NotFound ops (base s)
      else rw_Copy ops (indexHTML g)
             (rw_Header_Set ops ''Content-Type'' ''text/html; charset=utf-8'' (base s)))"
  by (simp add: homeHandler_def base_NotFound base_Copy)

lemma base_healthHandler:
  \<open>map_option base (healthHandler ops w r s) = rw_writeJSON ops 200 ''{"status":"healthy"}'' (base s)\<close>
  by (simp add: healthHandler_def base_writeJSON)

lemma base_liveHandler:
  \<open>map_option base (liveHandler ops w r s) = rw_writeJSON ops 200 ''{"status":"alive"}'' (base s)\<close>
  by (simp add: liveHandler_def base_writeJSON)

lemma base_readyHandler:
  \<open>map_option base (readyHandler ops g w r s) =
     (if sint (Time_Sub (clock s (ticks s)) (startTime g)) < sint (readyAfter g)
      then rw_writeJSON ops 503 ''{"status":"warming"}'' (base s)
      else rw_writeJSON ops 200 ''{"status":"ready"}'' (base s))\<close>
  by (simp add: readyHandler_def time_Since_def time_Now_def base_writeJSON)

lemma base_versionHandler:
  "map_option base (versionHandler q ops g w r s) =
     Some (snd (rw_Write ops
       (json_Encode q
          \<lparr>Name = ''Harness Demo App'', Version = version g, Commit = commit g,
           Environment = env g, BuildTime = buildTime g,
           Uptime = Duration_String (Truncate (Time_Sub (clock s (ticks s)) (startTime g)) Second),
           Hostname = os_Hostname s\<rparr>)
       (rw_Header_Set ops ''Content-Type'' ''application/json'' (base s))))"
  by (simp add: versionHandler_def time_Since_def time_Now_def Let_def)

lemma base_infoHandler:
  "map_option base (infoHandler q ops g w r s) =
     Some (snd (rw_Write ops
       (json_Encode q
          \<lparr>Name = ''Harness Demo App'', Version = version g, Commit = [],
           Environment = env g, BuildTime = buildTime g,
           Uptime = Duration_String (Truncate (Time_Sub (clock s (ticks s)) (startTime g)) Second),
           Hostname = os_Hostname s\<rparr>)
       (rw_Header_Set ops ''Content-Type'' ''application/json'' (base s))))"
  by (simp add: infoHandler_def time_Since_def time_Now_def Let_def)

section \<open>The chain of the two middlewares\<close>

lemma chain_sec_log:
  "chain h [withSecurityHeaders ops, withLogging] = withSecurityHeaders ops (withLogging h)"
  by (simp add: chain_foldr)

lemma withLogging_result:
  "withLogging next w r s =
     (case next (Cap (next_addr s) w) r
             (s\<lparr>ticks := Suc (ticks s),
                heap := (heap s)(next_addr s := \<lparr>status = 0, size_written = 0\<rparr>),
                next_addr := Suc (next_addr s)\<rparr>) of
        None \<Rightarrow> None
      | Some s3 \<Rightarrow>
          Some (s3\<lparr>ticks := Suc (ticks s3),
                  logs := logs s3 @
                    [request_record r (heap s3 (next_addr s))
                       (Time_Sub (clock s3 (ticks s3)) (clock s (ticks s)))]\<rparr>))"
  by (simp add: withLogging_def time_Now_def time_Since_def Let_def split: option.splits)

lemma base_withLogging:
  "map_option base (withLogging next w r s) =
     map_option base (next (Cap (next_addr s) w) r
        (s\<lparr>ticks := Suc (ticks s),
           heap := (heap s)(next_addr s := \<lparr>status = 0, size_written = 0\<rparr>),
           next_addr := Suc (next_addr s)\<rparr>))"
  by (simp add: withLogging_result split: option.splits)

lemma withSecurityHeaders_Base:
  "withSecurityHeaders ops next Base r s = next Base r (s\<lparr>base := rw_security_headers ops (base s)\<rparr>)"
  by (simp add: withSecurityHeaders_def rw_security_headers_def Let_def)

lemma base_chain:
  "map_option base (chain h [withSecurityHeaders ops, withLogging] Base r s) =
     map_option base (h (Cap (next_addr s) Base) r (enter_chain ops s))"
  by (simp add: chain_sec_log withSecurityHeaders_Base base_withLogging enter_chain_def)

section \<open>Routing\<close>

lemma mux_exact:
  "mux_match (routes q ops g sh mh) ''/'' = Some (chain (homeHandler ops g) [withSecurityHeaders ops, withLogging])"
  "mux_match (routes q ops g sh mh) ''/api/info'' = Some (chain (infoHandler q ops g) [withSecurityHeaders ops, withLogging])"
  "mux_match (routes q ops g sh mh) ''/version'' = Some (chain (versionHandler q ops g) [withSecurityHeaders ops, withLogging])"
  "mux_match (routes q ops g sh mh) ''/health'' = Some (chain (healthHandler ops) [withSecurityHeaders ops, withLogging])"
  "mux_match (routes q ops g sh mh) ''/healthz'' = Some (chain (healthHandler ops) [withSecurityHeaders ops, withLogging])"
  "mux_match (routes q ops g sh mh) ''/live'' = Some (chain (liveHandler ops) [withSecurityHeaders ops, withLogging])"
  "mux_match (routes q ops g sh mh) ''/livez'' = Some (chain (liveHandler ops) [withSecurityHeaders ops, withLogging])"
  "mux_match (routes q ops g sh mh) ''/ready'' = Some (chain (readyHandler ops g) [withSecurityHeaders ops, withLogging])"
  "mux_match (routes q ops g sh mh) ''/readyz'' = Some (chain (readyHandler ops g) [withSecurityHeaders ops, withLogging])"
  "mux_match (routes q ops g sh mh) ''/metrics'' = Some mh"
  by (simp_all add: mux_match_def routes_def)


lemma mux_fallthrough:
  assumes "strings_HasPrefix p ''/''" and "\<not> strings_HasPrefix p ''/static/''"
    and "p \<notin> fst ` set (routes q ops g sh mh)"
  shows "mux_match (routes q ops g sh mh) p =
           Some (chain (homeHandler ops g) [withSecurityHeaders ops, withLogging])"
  using assms by (simp add: mux_match_def routes_def ends_in_slash_def)

lemma cleanPath_exact:
  "cleanPath ''/'' = ''/''" "cleanPath ''/api/info'' = ''/api/info''"
  "cleanPath ''/version'' = ''/version''" "cleanPath ''/health'' = ''/health''"
  "cleanPath ''/healthz'' = ''/healthz''" "cleanPath ''/live'' = ''/live''"
  "cleanPath ''/livez'' = ''/livez''" "cleanPath ''/ready'' = ''/ready''"
  "cleanPath ''/readyz'' = ''/readyz''" "cleanPath ''/metrics'' = ''/metrics''"
  by (simp_all add: cleanPath_def path_Clean_def)

lemma no_redirect_exact:
  "map_of rs p \<noteq> None \<Longrightarrow> \<not> shouldRedirect rs p"
  by (simp add: shouldRedirect_def)

lemma mux_Handler_plain:
  assumes "cleanPath (URL_Path r) = URL_Path r" and "\<not> shouldRedirect rs (URL_Path r)"
  shows "mux_Handler ops rs r = mux_handler ops rs (URL_Path r)"
  using assms by (simp add: mux_Handler_def Let_def)

lemma registered_exact:
  "map_of (routes q ops g sh mh) ''/'' \<noteq> None"
  "map_of (routes q ops g sh mh) ''/api/info'' \<noteq> None"
  "map_of (routes q ops g sh mh) ''/version'' \<noteq> None"
  "map_of (routes q ops g sh mh) ''/health'' \<noteq> None"
  "map_of (routes q ops g sh mh) ''/healthz'' \<noteq> None"
  "map_of (routes q ops g sh mh) ''/live'' \<noteq> None"
  "map_of (routes q ops g sh mh) ''/livez'' \<noteq> None"
  "map_of (routes q ops g sh mh) ''/ready'' \<noteq> None"
  "map_of (routes q ops g sh mh) ''/readyz'' \<noteq> None"
  "map_of (routes q ops g sh mh) ''/metrics'' \<noteq> None"
  by (simp_all add: routes_def)

lemma ServeHTTP_exact:
  "ServeHTTP q ops g sh mh w (r\<lparr>URL_Path := ''/''\<rparr>) s
     = chain (homeHandler ops g) [withSecurityHeaders ops, withLogging] w (r\<lparr>URL_Path := ''/''\<rparr>) s"
  "ServeHTTP q ops g sh mh w (r\<lparr>URL_Path := ''/api/info''\<rparr>) s
     = chain (infoHandler q ops g) [withSecurityHeaders ops, withLogging] w
         (r\<lparr>URL_Path := ''/api/info''\<rparr>) s"
  "ServeHTTP q ops g sh mh w (r\<lparr>URL_Path := ''/version''\<rparr>) s
     = chain (versionHandler q ops g) [withSecurityHeaders ops, withLogging] w
         (r\<lparr>URL_Path := ''/version''\<rparr>) s"
  "ServeHTTP q ops g sh mh w (r\<lparr>URL_Path := ''/health''\<rparr>) s
     = chain (healthHandler ops) [withSecurityHeaders ops, withLogging] w
         (r\<lparr>URL_Path := ''/health''\<rparr>) s"
  "ServeHTTP q ops g sh mh w (r\<lparr>URL_Path := ''/healthz''\<rparr>) s
     = chain (healthHandler ops) [withSecurityHeaders ops, withLogging] w
         (r\<lparr>URL_Path := ''/healthz''\<rparr>) s"
  "ServeHTTP q ops g sh mh w (r\<lparr>URL_Path := ''/live''\<rparr>) s
     = chain (liveHandler ops) [withSecurityHeaders ops, withLogging] w
         (r\<lparr>URL_Path := ''/live''\<rparr>) s"
  "ServeHTTP q ops g sh mh w (r\<lparr>URL_Path := ''/livez''\<rparr>) s
     = chain (liveHandler ops) [withSecurityHeaders ops, withLogging] w
         (r\<lparr>URL_Path := ''/livez''\<rparr>) s"
  "ServeHTTP q ops g sh mh w (r\<lparr>URL_Path := ''/ready''\<rparr>) s
     = chain (readyHandler ops g) [withSecurityHeaders ops, withLogging] w
         (r\<lparr>URL_Path := ''/ready''\<rparr>) s"
  "ServeHTTP q ops g sh mh w (r\<lparr>URL_Path := ''/readyz''\<rparr>) s
     = chain (readyHandler ops g) [withSecurityHeaders ops, withLogging] w
         (r\<lparr>URL_Path := ''/readyz''\<rparr>) s"
  "ServeHTTP q ops g sh mh w (r\<lparr>URL_Path := ''/metrics''\<rparr>) s
     = mh w (r\<lparr>URL_Path := ''/metrics''\<rparr>) s"
  by (simp_all add: ServeHTTP_def mux_Handler_plain cleanPath_exact no_redirect_exact
      registered_exact mux_handler_def mux_exact)

lemma path_Clean_rooted: "path_Clean p \<noteq> [] \<and> hd (path_Clean p) = CHR ''/''"
proof (cases "clean_elements (split_slash p) []")
  case Nil
  then show ?thesis by (simp add: path_Clean_def)
next
  case (Cons e es)
  then show ?thesis by (simp add: path_Clean_def)
qed

lemma cleanPath_rooted: "cleanPath p \<noteq> [] \<and> hd (cleanPath p) = CHR ''/''"
  using path_Clean_rooted [of p] path_Clean_rooted [of "CHR ''/'' # p"]
  by (auto simp: cleanPath_def Let_def)

lemma clean_is_rooted:
  assumes "cleanPath p = p"
  shows "strings_HasPrefix p ''/''" and "p \<noteq> []"
proof -
  from cleanPath_rooted [of p] assms have "p \<noteq> []" "hd p = CHR ''/''" by simp_all
  then show "strings_HasPrefix p ''/''" "p \<noteq> []"
    by (cases p; simp add: strings_HasPrefix_def)+
qed

lemma slash_appended_not_registered:
  assumes "p \<noteq> []" and "p \<noteq> ''/static''"
  shows "map_of (routes q ops g sh mh) (p @ ''/'') = None"
proof -
  have l: "last (p @ ''/'') = CHR ''/''" by simp
  have "p @ ''/'' \<noteq> k" if "last k \<noteq> CHR ''/''" for k
    using that l by auto
  then have ne: "p @ ''/'' \<noteq> ''/api/info''" "p @ ''/'' \<noteq> ''/version''" "p @ ''/'' \<noteq> ''/health''"
    "p @ ''/'' \<noteq> ''/live''" "p @ ''/'' \<noteq> ''/ready''" "p @ ''/'' \<noteq> ''/healthz''"
    "p @ ''/'' \<noteq> ''/livez''" "p @ ''/'' \<noteq> ''/readyz''" "p @ ''/'' \<noteq> ''/metrics''"
    by simp_all
  from assms have s: "p @ ''/'' \<noteq> ''/static/''" "p @ ''/'' \<noteq> ''/''"
    by (auto simp: append_eq_Cons_conv)
  from ne s show ?thesis by (simp add: routes_def)
qed

lemma ServeHTTP_fallthrough:
  assumes "cleanPath p = p" and "p \<noteq> ''/static''" and "\<not> strings_HasPrefix p ''/static/''"
    and "p \<notin> fst ` set (routes q ops g sh mh)"
  shows "ServeHTTP q ops g sh mh w (r\<lparr>URL_Path := p\<rparr>) s
           = chain (homeHandler ops g) [withSecurityHeaders ops, withLogging] w (r\<lparr>URL_Path := p\<rparr>) s"
proof -
  from clean_is_rooted [OF assms(1)] have rooted: "strings_HasPrefix p ''/''" and ne: "p \<noteq> []" .
  from slash_appended_not_registered [OF ne assms(2), of q ops g sh mh]
  have "\<not> shouldRedirect (routes q ops g sh mh) p"
    by (simp add: shouldRedirect_def)
  with assms(1) have "mux_Handler ops (routes q ops g sh mh) (r\<lparr>URL_Path := p\<rparr>)
      = mux_handler ops (routes q ops g sh mh) p"
    by (simp add: mux_Handler_plain)
  with mux_fallthrough [OF rooted assms(3) assms(4)] show ?thesis
    by (simp add: ServeHTTP_def mux_handler_def)
qed


text \<open>
  The requests that the mux answers itself: \<open>/static\<close> is redirected to \<open>/static/\<close>, and a
  path that is not in canonical form to its canonical form.
\<close>

lemma ServeHTTP_redirects:
  "ServeHTTP q ops g sh mh w (r\<lparr>URL_Path := ''/static''\<rparr>) s
     = http_Redirect ops ''/static/'' w (r\<lparr>URL_Path := ''/static''\<rparr>) s"
  "Method r \<noteq> ''CONNECT'' \<Longrightarrow>
   ServeHTTP q ops g sh mh w (r\<lparr>URL_Path := ''//ready''\<rparr>) s
     = http_Redirect ops ''/ready'' w (r\<lparr>URL_Path := ''//ready''\<rparr>) s"
  by (simp_all add: ServeHTTP_def mux_Handler_def shouldRedirect_def routes_def cleanPath_def
      path_Clean_def Let_def)

section \<open>Responses in a new recorder\<close>

lemma recorded_base:
  "recorded res = map_option (\<lambda>b. (Code b, Body b)) (map_option base res)"
  by (simp add: recorded_def option.map_comp comp_def)

lemma enter_chain_fields [simp]:
  "base (enter_chain ops s) = rw_security_headers ops (base s)"
  "clock (enter_chain ops s) = clock s"
  "ticks (enter_chain ops s) = Suc (ticks s)"
  "os_Hostname (enter_chain ops s) = os_Hostname s"
  by (simp_all add: enter_chain_def)

lemma fresh_not_written [simp]:
  "\<not> wroteHeader (rw_security_headers recorder NewRecorder)"
  "Body (rw_security_headers recorder NewRecorder) = []"
  "Code (rw_security_headers recorder NewRecorder) = 200"
  by (simp_all add: rw_security_headers_def recorder_def Recorder_Header_Set_def NewRecorder_def)

lemma recorder_writeJSON:
  assumes "100 \<le> sint st" and "sint st \<le> 999" and "\<not> wroteHeader b"
  shows "map_option (\<lambda>b. (Code b, Body b)) (rw_writeJSON recorder st body b) = Some (st, Body b @ body)"
  using assms
  by (simp add: rw_writeJSON_def recorder_def Recorder_Header_Set_def Recorder_WriteHeader_def
      Recorder_Write_def Let_def)

lemma recorder_NotFound:
  assumes "\<not> wroteHeader b"
  shows "map_option (\<lambda>b. (Code b, Body b)) (rw_NotFound recorder b)
           = Some (404, Body b @ ''404 page not found'' @ [CHR 0x0A])"
  using assms
  by (simp add: rw_NotFound_def recorder_def Recorder_Header_Set_def Recorder_WriteHeader_def
      Recorder_Write_def Let_def)

lemma sint_of_nat_le: "sint (word_of_nat n :: 64 word) \<le> int n"
  using sint_sbintrunc' [of "int n", where 'a = 64]
  by (simp add: signed_take_bit_int_less_eq_self_iff)

lemma recorder_Copy_html:
  assumes "\<not> wroteHeader b" and "Code b = 200"
  shows "map_option (\<lambda>b. (Code b, Body b))
           (rw_Copy recorder d (rw_Header_Set recorder ''Content-Type'' ''text/html; charset=utf-8'' b))
         = Some (200, Body b @ d)"
  using assms
  using sint_of_nat_le [of "length d"]
  by (simp add: rw_Copy_def recorder_def Recorder_Header_Set_def Recorder_Write_def Let_def)

lemma ready_recorded:
  \<open>p = ''/ready'' \<or> p = ''/readyz'' \<Longrightarrow>
   recorded (ServeHTTP q recorder g sh mh Base (r\<lparr>URL_Path := p\<rparr>) (s\<lparr>base := NewRecorder\<rparr>)) =
     (if sint (Time_Sub (clock s (Suc (ticks s))) (startTime g)) < sint (readyAfter g)
      then Some (503, ''{"status":"warming"}'') else Some (200, ''{"status":"ready"}''))\<close>
  by (elim disjE; simp add: ServeHTTP_exact recorded_base base_chain base_readyHandler
      recorder_writeJSON)

section \<open>The probes\<close>

text \<open>
  C1. A request to \<open>/ready\<close> or \<open>/readyz\<close>, served into a new recorder, is answered by the
  elapsed time alone: with \<open>now\<close> the clock reading the handler takes (the second of the
  request, the first being the logger's start time) and \<open>now - startTime \<ge> 0\<close>, the
  response is 503 with body \<open>{"status":"warming"}\<close> when \<open>now - startTime < readyAfter\<close>
  and 200 with body \<open>{"status":"ready"}\<close> otherwise; \<open>now - startTime = readyAfter\<close> is
  ready.
\<close>

theorem ready_probe_response:
  assumes \<open>startTime g \<le> clock s (Suc (ticks s))\<close>
    and \<open>p = ''/ready'' \<or> p = ''/readyz''\<close>
  shows \<open>recorded (ServeHTTP q recorder g sh mh Base (r\<lparr>URL_Path := p\<rparr>) (s\<lparr>base := NewRecorder\<rparr>)) =
     (if clock s (Suc (ticks s)) - startTime g < sint (readyAfter g)
      then Some (503, ''{"status":"warming"}'') else Some (200, ''{"status":"ready"}''))\<close>
  using assms by (simp add: ready_recorded Time_Sub_less_iff)

theorem ready_probe_response_witness:
  \<open>startTime (test_globals 5001000000 (10 * Second)) \<le> clock test_world (Suc (ticks test_world))
   \<and> recorded (ServeHTTP jsonString_plain recorder (test_globals 5001000000 (10 * Second))
         (http_NotFound recorder) (http_NotFound recorder) Base (test_request ''/readyz'')
         (test_world\<lparr>base := NewRecorder\<rparr>)) = Some (503, ''{"status":"warming"}'')
   \<and> recorded (ServeHTTP jsonString_plain recorder (test_globals 1000000 (2 * Second))
         (http_NotFound recorder) (http_NotFound recorder) Base (test_request ''/ready'')
         (test_world\<lparr>base := NewRecorder\<rparr>)) = Some (200, ''{"status":"ready"}'')
   \<and> recorded (ServeHTTP jsonString_plain recorder (test_globals 3001000000 (2 * Second))
         (http_NotFound recorder) (http_NotFound recorder) Base (test_request ''/ready'')
         (test_world\<lparr>base := NewRecorder\<rparr>)) = Some (200, ''{"status":"ready"}'')\<close>
  using
    ready_probe_response [of "test_globals 5001000000 (10 * Second)" test_world "''/readyz''"
      jsonString_plain "http_NotFound recorder" "http_NotFound recorder" "test_request ''/readyz''"]
    ready_probe_response [of "test_globals 1000000 (2 * Second)" test_world "''/ready''"
      jsonString_plain "http_NotFound recorder" "http_NotFound recorder" "test_request ''/ready''"]
    ready_probe_response [of "test_globals 3001000000 (2 * Second)" test_world "''/ready''"
      jsonString_plain "http_NotFound recorder" "http_NotFound recorder" "test_request ''/ready''"]
  by (simp add: test_globals_def test_world_def new_world_def test_request_def Second_def)

text \<open>
  C6. A request to \<open>/health\<close> or \<open>/healthz\<close> is answered 200 with body
  \<open>{"status":"healthy"}\<close>, and one to \<open>/live\<close> or \<open>/livez\<close> 200 with body
  \<open>{"status":"alive"}\<close>, whatever the clock, \<open>startTime\<close> and \<open>readyAfter\<close> are.
\<close>

theorem health_live_probe_response:
  \<open>recorded (ServeHTTP q recorder g sh mh Base (r\<lparr>URL_Path := ''/health''\<rparr>) (s\<lparr>base := NewRecorder\<rparr>))
     = Some (200, ''{"status":"healthy"}'')
   \<and> recorded (ServeHTTP q recorder g sh mh Base (r\<lparr>URL_Path := ''/healthz''\<rparr>) (s\<lparr>base := NewRecorder\<rparr>))
     = Some (200, ''{"status":"healthy"}'')
   \<and> recorded (ServeHTTP q recorder g sh mh Base (r\<lparr>URL_Path := ''/live''\<rparr>) (s\<lparr>base := NewRecorder\<rparr>))
     = Some (200, ''{"status":"alive"}'')
   \<and> recorded (ServeHTTP q recorder g sh mh Base (r\<lparr>URL_Path := ''/livez''\<rparr>) (s\<lparr>base := NewRecorder\<rparr>))
     = Some (200, ''{"status":"alive"}'')\<close>
  by (simp add: ServeHTTP_exact recorded_base base_chain base_healthHandler
      base_liveHandler recorder_writeJSON)

text \<open>
  C7. With \<open>startTime\<close> and \<open>readyAfter\<close> fixed, if the ready probe answers ready to a
  request whose handler reads the clock at \<open>t1\<close>, it answers ready to every request whose
  handler reads the clock at a \<open>t2 \<ge> t1\<close>: it never goes back to warming.
\<close>

theorem ready_monotonic:
  assumes \<open>clock s1 (Suc (ticks s1)) \<le> clock s2 (Suc (ticks s2))\<close>
    and \<open>p1 = ''/ready'' \<or> p1 = ''/readyz''\<close> and \<open>p2 = ''/ready'' \<or> p2 = ''/readyz''\<close>
    and \<open>recorded (ServeHTTP q recorder g sh mh Base (r1\<lparr>URL_Path := p1\<rparr>) (s1\<lparr>base := NewRecorder\<rparr>))
           = Some (200, ''{"status":"ready"}'')\<close>
  shows \<open>recorded (ServeHTTP q recorder g sh mh Base (r2\<lparr>URL_Path := p2\<rparr>) (s2\<lparr>base := NewRecorder\<rparr>))
           = Some (200, ''{"status":"ready"}'')\<close>
proof -
  let ?d1 = "sint (Time_Sub (clock s1 (Suc (ticks s1))) (startTime g))"
  let ?d2 = "sint (Time_Sub (clock s2 (Suc (ticks s2))) (startTime g))"
  from assms(2,4) have "\<not> ?d1 < sint (readyAfter g)"
    by (auto simp: ready_recorded [of p1] split: if_splits)
  moreover from assms(1) have "?d1 \<le> ?d2" by (rule Time_Sub_mono)
  ultimately have "\<not> ?d2 < sint (readyAfter g)" by simp
  with assms(3) show ?thesis by (simp add: ready_recorded [of p2])
qed

theorem ready_monotonic_witness:
  \<open>clock test_world (Suc (ticks test_world))
     \<le> clock (test_world\<lparr>ticks := 7\<rparr>) (Suc (ticks (test_world\<lparr>ticks := 7\<rparr>)))
   \<and> recorded (ServeHTTP jsonString_plain recorder (test_globals 3001000000 (2 * Second))
         (http_NotFound recorder) (http_NotFound recorder) Base (test_request ''/ready'')
         (test_world\<lparr>base := NewRecorder\<rparr>)) = Some (200, ''{"status":"ready"}'')
   \<and> recorded (ServeHTTP jsonString_plain recorder (test_globals 3001000000 (2 * Second))
         (http_NotFound recorder) (http_NotFound recorder) Base (test_request ''/readyz'')
         (test_world\<lparr>ticks := 7, base := NewRecorder\<rparr>)) = Some (200, ''{"status":"ready"}'')\<close>
proof -
  have t: \<open>clock test_world (Suc (ticks test_world))
     \<le> clock (test_world\<lparr>ticks := 7\<rparr>) (Suc (ticks (test_world\<lparr>ticks := 7\<rparr>)))\<close>
    by (simp add: test_world_def new_world_def)
  have r1: \<open>recorded (ServeHTTP jsonString_plain recorder (test_globals 3001000000 (2 * Second))
         (http_NotFound recorder) (http_NotFound recorder) Base
         ((test_request ''/ready'')\<lparr>URL_Path := ''/ready''\<rparr>)
         (test_world\<lparr>base := NewRecorder\<rparr>)) = Some (200, ''{"status":"ready"}'')\<close>
    using ready_recorded [of "''/ready''" jsonString_plain "test_globals 3001000000 (2 * Second)"
        "http_NotFound recorder" "http_NotFound recorder" "test_request ''/ready''" test_world]
    by (simp add: sint_Time_Sub test_globals_def test_world_def new_world_def
        Second_def maxDuration_def minDuration_def)
  from ready_monotonic [OF t _ _ r1, of "''/readyz''" "test_request ''/readyz''"] t r1
  show ?thesis by (simp add: test_request_def)
qed

section \<open>The root handler\<close>

lemma sent_header_base:
  "sent_header res k = map_option (\<lambda>b. Header_Get (Result_Header b) k) (map_option base res)"
  by (simp add: sent_header_def option.map_comp comp_def)

lemma recorder_Copy_sent:
  assumes "\<not> wroteHeader b"
  shows "map_option (\<lambda>b. Header_Get (Result_Header b) ''Content-Type'')
     (rw_Copy recorder d (rw_Header_Set recorder ''Content-Type'' v b)) = Some v"
  using assms sint_of_nat_le [of "length d"]
  by (simp add: rw_Copy_def recorder_def Recorder_Header_Set_def Recorder_Write_def Let_def
      Header_Get_def Result_Header_def)

text \<open>
  The headers sent are those set before the first write: a header that a handler sets
  after it has written is in the header map and not in the response.
\<close>

lemma late_header_not_sent:
  "sent_headers
     (calls_handler recorder
        [SetHeader ''Content-Type'' ''text/plain'', CallWrite ''x'', SetHeader ''X-Late'' ''1'']
        Base (test_request ''/'') (test_world\<lparr>base := NewRecorder\<rparr>))
     [''Content-Type'', ''X-Late''] = Some [''text/plain'', []]"
  "map_headers
     (calls_handler recorder
        [SetHeader ''Content-Type'' ''text/plain'', CallWrite ''x'', SetHeader ''X-Late'' ''1'']
        Base (test_request ''/'') (test_world\<lparr>base := NewRecorder\<rparr>))
     [''Content-Type'', ''X-Late''] = Some [''text/plain'', ''1'']"
  by (simp_all add: sent_headers_def map_headers_def calls_handler_def recorder_def
      Recorder_Header_Set_def Recorder_Write_def NewRecorder_def Let_def Header_Get_def
      Result_Header_def)

lemma home_not_found:
  "URL_Path r \<noteq> ''/'' \<Longrightarrow>
   recorded (chain (homeHandler recorder g) [withSecurityHeaders recorder, withLogging] Base r
               (s\<lparr>base := NewRecorder\<rparr>))
     = Some (404, ''404 page not found'' @ [CHR 0x0A])"
  by (simp add: recorded_base base_chain base_homeHandler recorder_NotFound)

text \<open>
  C9. A request with path exactly \<open>/\<close> is answered 200 with the embedded page as body,
  and the Content-Type sent with it is \<open>text/html; charset=utf-8\<close>. Every request with
  another path that reaches the root handler is answered by the handler itself with 404 and
  \<open>404 page not found\<close>, and the handler returns normally. The mux hands to the root
  handler the requests whose path is in canonical form (\<open>cleanPath p = p\<close>), is not
  \<open>/static\<close>, is not under \<open>/static/\<close> and is not a registered pattern; \<open>/static\<close> and
  the paths that are not in canonical form are answered by the mux with a redirect
  (\<open>ServeHTTP_redirects\<close>) and do not reach the handler.
\<close>

theorem root_page_and_not_found:
  "recorded (ServeHTTP q recorder g sh mh Base (r\<lparr>URL_Path := ''/''\<rparr>) (s\<lparr>base := NewRecorder\<rparr>))
     = Some (200, indexHTML g)
   \<and> sent_header
         (ServeHTTP q recorder g sh mh Base (r\<lparr>URL_Path := ''/''\<rparr>) (s\<lparr>base := NewRecorder\<rparr>))
         ''Content-Type'' = Some ''text/html; charset=utf-8''
   \<and> (URL_Path r \<noteq> ''/'' \<longrightarrow>
        recorded (chain (homeHandler recorder g) [withSecurityHeaders recorder, withLogging] Base r
                    (s\<lparr>base := NewRecorder\<rparr>))
          = Some (404, ''404 page not found'' @ [CHR 0x0A]))
   \<and> (cleanPath p = p \<and> p \<noteq> ''/static'' \<and> \<not> strings_HasPrefix p ''/static/''
        \<and> p \<notin> fst ` set (routes q recorder g sh mh) \<longrightarrow>
        ServeHTTP q recorder g sh mh Base (r\<lparr>URL_Path := p\<rparr>) (s\<lparr>base := NewRecorder\<rparr>)
          = chain (homeHandler recorder g) [withSecurityHeaders recorder, withLogging] Base
              (r\<lparr>URL_Path := p\<rparr>) (s\<lparr>base := NewRecorder\<rparr>)
        \<and> recorded (ServeHTTP q recorder g sh mh Base (r\<lparr>URL_Path := p\<rparr>) (s\<lparr>base := NewRecorder\<rparr>))
          = Some (404, ''404 page not found'' @ [CHR 0x0A]))"
proof (intro conjI impI)
  show "recorded (ServeHTTP q recorder g sh mh Base (r\<lparr>URL_Path := ''/''\<rparr>) (s\<lparr>base := NewRecorder\<rparr>))
     = Some (200, indexHTML g)"
    by (simp add: ServeHTTP_exact recorded_base base_chain base_homeHandler recorder_Copy_html)
  show "sent_header
         (ServeHTTP q recorder g sh mh Base (r\<lparr>URL_Path := ''/''\<rparr>) (s\<lparr>base := NewRecorder\<rparr>))
         ''Content-Type'' = Some ''text/html; charset=utf-8''"
    by (simp add: ServeHTTP_exact sent_header_base base_chain base_homeHandler recorder_Copy_sent)
next
  assume "URL_Path r \<noteq> ''/''"
  then show "recorded (chain (homeHandler recorder g) [withSecurityHeaders recorder, withLogging] Base r
                    (s\<lparr>base := NewRecorder\<rparr>))
          = Some (404, ''404 page not found'' @ [CHR 0x0A])"
    by (rule home_not_found)
next
  assume a: "cleanPath p = p \<and> p \<noteq> ''/static'' \<and> \<not> strings_HasPrefix p ''/static/''
        \<and> p \<notin> fst ` set (routes q recorder g sh mh)"
  then show m: "ServeHTTP q recorder g sh mh Base (r\<lparr>URL_Path := p\<rparr>) (s\<lparr>base := NewRecorder\<rparr>)
          = chain (homeHandler recorder g) [withSecurityHeaders recorder, withLogging] Base
              (r\<lparr>URL_Path := p\<rparr>) (s\<lparr>base := NewRecorder\<rparr>)"
    by (simp add: ServeHTTP_fallthrough)
  from a have "p \<noteq> ''/''" by (auto simp: routes_def)
  then have "URL_Path (r\<lparr>URL_Path := p\<rparr>) \<noteq> ''/''" by simp
  from home_not_found [OF this] m
  show "recorded (ServeHTTP q recorder g sh mh Base (r\<lparr>URL_Path := p\<rparr>) (s\<lparr>base := NewRecorder\<rparr>))
          = Some (404, ''404 page not found'' @ [CHR 0x0A])"
    by simp
qed

theorem root_page_and_not_found_witness:
  "cleanPath ''/nope'' = ''/nope'' \<and> ''/nope'' \<noteq> ''/static''
   \<and> \<not> strings_HasPrefix ''/nope'' ''/static/''
   \<and> ''/nope'' \<notin> fst ` set (routes jsonString_plain recorder (test_globals 0 (2 * Second))
                                (http_NotFound recorder) (http_NotFound recorder))
   \<and> recorded (ServeHTTP jsonString_plain recorder (test_globals 0 (2 * Second))
         (http_NotFound recorder) (http_NotFound recorder) Base (test_request ''/nope'')
         (test_world\<lparr>base := NewRecorder\<rparr>)) = Some (404, ''404 page not found'' @ [CHR 0x0A])
   \<and> recorded (ServeHTTP jsonString_plain recorder (test_globals 0 (2 * Second))
         (http_NotFound recorder) (http_NotFound recorder) Base (test_request ''/'')
         (test_world\<lparr>base := NewRecorder\<rparr>)) = Some (200, ''<h1>Harness Demo App</h1>'')
   \<and> sent_header (ServeHTTP jsonString_plain recorder (test_globals 0 (2 * Second))
         (http_NotFound recorder) (http_NotFound recorder) Base (test_request ''/'')
         (test_world\<lparr>base := NewRecorder\<rparr>)) ''Content-Type'' = Some ''text/html; charset=utf-8''
   \<and> URL_Path (test_request ''/nope'') \<noteq> ''/''
   \<and> recorded (chain (homeHandler recorder (test_globals 0 (2 * Second)))
         [withSecurityHeaders recorder, withLogging] Base (test_request ''/nope'')
         (test_world\<lparr>base := NewRecorder\<rparr>)) = Some (404, ''404 page not found'' @ [CHR 0x0A])"
proof -
  have h: "cleanPath ''/nope'' = ''/nope'' \<and> ''/nope'' \<noteq> ''/static''
   \<and> \<not> strings_HasPrefix ''/nope'' ''/static/''
   \<and> ''/nope'' \<notin> fst ` set (routes jsonString_plain recorder (test_globals 0 (2 * Second))
                                (http_NotFound recorder) (http_NotFound recorder))"
    by (simp add: strings_HasPrefix_def routes_def cleanPath_def path_Clean_def)
  have u: "URL_Path (test_request ''/nope'') \<noteq> ''/''"
    by (simp add: test_request_def)
  have e1: "(test_request ''/nope'')\<lparr>URL_Path := ''/nope''\<rparr> = test_request ''/nope''"
    and e2: "(test_request ''/'')\<lparr>URL_Path := ''/''\<rparr> = test_request ''/''"
    by (simp_all add: test_request_def)
  from root_page_and_not_found [of jsonString_plain "test_globals 0 (2 * Second)"
      "http_NotFound recorder" "http_NotFound recorder" "test_request ''/nope''" test_world "''/nope''"]
    root_page_and_not_found [of jsonString_plain "test_globals 0 (2 * Second)"
      "http_NotFound recorder" "http_NotFound recorder" "test_request ''/''" test_world "''/nope''"]
    h u
  show ?thesis
    unfolding e1 e2 by (simp add: test_globals_def)
qed

section \<open>The text of an uptime\<close>

lemma digit_char_decimal: "d < 10 \<Longrightarrow> digit_char d = ''0123456789'' ! d"
proof -
  assume "d < 10"
  then have "d = 0 \<or> d = 1 \<or> d = 2 \<or> d = 3 \<or> d = 4 \<or> d = 5 \<or> d = 6 \<or> d = 7
    \<or> d = 8 \<or> d = 9"
    by arith
  then show ?thesis
    by (elim disjE) (simp_all add: digit_char_def char_of_def bit_Suc_0_iff)
qed

lemma fmtInt_decimal: "fmtInt n = decimal n"
proof (induction n rule: fmtInt.induct)
  case (1 v)
  show ?case
  proof (cases "v < 10")
    case True
    then show ?thesis
      by (subst fmtInt.simps, subst decimal.simps) (simp add: digit_char_decimal del: fmtInt.simps decimal.simps)
  next
    case False
    with 1 have "fmtInt (v div 10) = decimal (v div 10)" by simp
    with False show ?thesis
      by (subst fmtInt.simps, subst decimal.simps) (simp add: digit_char_decimal del: fmtInt.simps decimal.simps)
  qed
qed

lemma fmtFrac_loop_whole: "fmtFrac_loop i (k * 10 ^ i) False acc = (acc, k)"
  by (induction i arbitrary: acc) (simp_all add: Let_def)

lemma fmtFrac_seconds: "fmtFrac (k * 1000000000) 9 = ([], k)"
proof -
  have "(1000000000 :: nat) = 10 ^ 9" by simp
  then show ?thesis
    unfolding fmtFrac_def using fmtFrac_loop_whole [of 9 k "[]"] by simp
qed

lemma Duration_String_seconds:
  assumes "sint d = int k * 1000000000"
  shows "Duration_String d = seconds_text k"
proof (cases "k = 0")
  case True
  with assms show ?thesis
    by (simp add: Duration_String_def seconds_text_def)
next
  case False
  from assms have u: "nat \<bar>sint d\<bar> = k * 1000000000" and n: "\<not> sint d < 0"
    by (simp_all add: nat_mult_distrib)
  from False have big: "\<not> k * 1000000000 < 1000000000" by simp
  have h: "(0 < k div 3600) = (3600 \<le> k)" "(0 < k div 60) = (60 \<le> k)"
    "k div 60 div 60 = k div 3600" "(k div 3600 = 0) = (k < 3600)" "(k div 60 = 0) = (k < 60)"
    by (simp_all add: div_mult2_eq [symmetric] div_greater_zero_iff div_eq_0_iff)
  show ?thesis
    unfolding Duration_String_def Let_def u fmtFrac_seconds
    using n big
    by (simp add: fmtInt_decimal seconds_text_def h del: fmtInt.simps decimal.simps)
qed

lemma smod_nonneg: "0 \<le> a \<Longrightarrow> (a :: int) smod 1000000000 = a mod 1000000000"
  by (cases "a = 0") (simp_all add: signed_modulo_int_def)

lemma Truncate_Second:
  assumes "0 \<le> sint d"
  shows "sint (Truncate d Second) = sint d div 1000000000 * 1000000000"
proof -
  let ?a = "sint d"
  have r: "?a < 2 ^ 63" using sint64_range [of d] by simp
  have m: "0 \<le> ?a mod 1000000000" "?a mod 1000000000 \<le> ?a"
    using assms by (simp_all add: zmod_le_nonneg_dividend)
  have "Truncate d Second = word_of_int ?a - word_of_int (?a mod 1000000000)"
    using assms by (simp add: Truncate_def Second_def smod_nonneg)
  also have "\<dots> = word_of_int (?a - ?a mod 1000000000)" by simp
  finally have "sint (Truncate d Second) = ?a - ?a mod 1000000000"
    using sint64_of_int [of "?a - ?a mod 1000000000"] m r by simp
  also have "\<dots> = ?a div 1000000000 * 1000000000"
    by (simp add: minus_mod_eq_div_mult)
  finally show ?thesis .
qed

lemma uptime_text:
  assumes "u \<le> t"
  shows "Duration_String (Truncate (Time_Sub t u) Second)
           = seconds_text (nat (min (2 ^ 63 - 1) (t - u) div 1000000000))"
proof -
  let ?e = "min (2 ^ 63 - 1) (t - u)"
  from assms have e: "sint (Time_Sub t u) = ?e" "0 \<le> ?e"
    by (auto simp: sint_Time_Sub maxDuration_def minDuration_def)
  then have "sint (Truncate (Time_Sub t u) Second) = ?e div 1000000000 * 1000000000"
    by (simp add: Truncate_Second)
  also have "\<dots> = int (nat (?e div 1000000000)) * 1000000000"
    using e(2) by (simp add: pos_imp_zdiv_nonneg_iff)
  finally show ?thesis by (rule Duration_String_seconds)
qed

section \<open>The info and version handlers\<close>

lemma recorder_Write_json:
  assumes "\<not> wroteHeader b" and "Code b = 200"
  shows "Code (snd (rw_Write recorder body (rw_Header_Set recorder ''Content-Type'' v b))) = 200"
    and "Body (snd (rw_Write recorder body (rw_Header_Set recorder ''Content-Type'' v b)))
           = Body b @ body"
    and "Header_Get (Result_Header (snd (rw_Write recorder body
           (rw_Header_Set recorder ''Content-Type'' v b)))) ''Content-Type'' = v"
  using assms
  by (simp_all add: recorder_def Recorder_Header_Set_def Recorder_Write_def Let_def Header_Get_def
      Result_Header_def)

lemma json_Encode_text:
  \<open>json_Encode q \<lparr>Name = n, Version = v, Commit = c, Environment = e, BuildTime = b,
                   Uptime = u, Hostname = h\<rparr>
   = ''{"name":'' @ q n @ '',"version":'' @ q v @ '',"commit":'' @ q c
       @ '',"environment":'' @ q e @ '',"buildTime":'' @ q b @ '',"uptime":'' @ q u
       @ '',"hostname":'' @ q h @ ''}'' @ [CHR 0x0A]\<close>
  by (simp add: json_Encode_def AppInfo_members_def)

lemma version_recorded:
  \<open>recorded (ServeHTTP q recorder g sh mh Base (r\<lparr>URL_Path := ''/version''\<rparr>) (s\<lparr>base := NewRecorder\<rparr>))
     = Some (200, json_Encode q
         \<lparr>Name = ''Harness Demo App'', Version = version g, Commit = commit g,
          Environment = env g, BuildTime = buildTime g,
          Uptime = Duration_String
                     (Truncate (Time_Sub (clock s (Suc (ticks s))) (startTime g)) Second),
          Hostname = os_Hostname s\<rparr>)\<close>
  by (simp add: ServeHTTP_exact recorded_base base_chain base_versionHandler recorder_Write_json)

lemma info_recorded:
  \<open>recorded (ServeHTTP q recorder g sh mh Base (r\<lparr>URL_Path := ''/api/info''\<rparr>) (s\<lparr>base := NewRecorder\<rparr>))
     = Some (200, json_Encode q
         \<lparr>Name = ''Harness Demo App'', Version = version g, Commit = [],
          Environment = env g, BuildTime = buildTime g,
          Uptime = Duration_String
                     (Truncate (Time_Sub (clock s (Suc (ticks s))) (startTime g)) Second),
          Hostname = os_Hostname s\<rparr>)\<close>
  by (simp add: ServeHTTP_exact recorded_base base_chain base_infoHandler recorder_Write_json)

lemma version_info_sent:
  \<open>sent_header
      (ServeHTTP q recorder g sh mh Base (r\<lparr>URL_Path := ''/version''\<rparr>) (s\<lparr>base := NewRecorder\<rparr>))
      ''Content-Type'' = Some ''application/json''\<close>
  \<open>sent_header
      (ServeHTTP q recorder g sh mh Base (r\<lparr>URL_Path := ''/api/info''\<rparr>) (s\<lparr>base := NewRecorder\<rparr>))
      ''Content-Type'' = Some ''application/json''\<close>
  by (simp_all add: ServeHTTP_exact sent_header_base base_chain base_versionHandler
      base_infoHandler recorder_Write_json)

text \<open>
  C8, as the code has it. With \<open>now\<close> the clock reading the handler takes and
  \<open>now \<ge> startTime\<close>, \<open>/version\<close> and \<open>/api/info\<close> both answer 200, the Content-Type sent is
  \<open>application/json\<close>, and the body is one JSON object with the members name, version,
  commit, environment, buildTime, uptime and hostname, in this order, and a newline. The
  value of commit is the \<open>commit\<close> variable on \<open>/version\<close> and the empty string on
  \<open>/api/info\<close>. The uptime is computed at each request: it is the number of whole seconds
  in \<open>now - startTime\<close> (in the largest duration, 2^63 - 1 ns, when the difference is
  larger), written as hours, minutes and seconds.
\<close>

theorem version_info_response:
  assumes \<open>startTime g \<le> clock s (Suc (ticks s))\<close>
  shows \<open>recorded (ServeHTTP q recorder g sh mh Base (r\<lparr>URL_Path := ''/version''\<rparr>) (s\<lparr>base := NewRecorder\<rparr>))
     = Some (200,
         ''{"name":'' @ q ''Harness Demo App'' @ '',"version":'' @ q (version g)
         @ '',"commit":'' @ q (commit g) @ '',"environment":'' @ q (env g)
         @ '',"buildTime":'' @ q (buildTime g)
         @ '',"uptime":'' @ q (seconds_text
              (nat (min (2 ^ 63 - 1) (clock s (Suc (ticks s)) - startTime g) div 1000000000)))
         @ '',"hostname":'' @ q (os_Hostname s) @ ''}'' @ [CHR 0x0A])
   \<and> recorded (ServeHTTP q recorder g sh mh Base (r\<lparr>URL_Path := ''/api/info''\<rparr>) (s\<lparr>base := NewRecorder\<rparr>))
     = Some (200,
         ''{"name":'' @ q ''Harness Demo App'' @ '',"version":'' @ q (version g)
         @ '',"commit":'' @ q [] @ '',"environment":'' @ q (env g)
         @ '',"buildTime":'' @ q (buildTime g)
         @ '',"uptime":'' @ q (seconds_text
              (nat (min (2 ^ 63 - 1) (clock s (Suc (ticks s)) - startTime g) div 1000000000)))
         @ '',"hostname":'' @ q (os_Hostname s) @ ''}'' @ [CHR 0x0A])
   \<and> sent_header
         (ServeHTTP q recorder g sh mh Base (r\<lparr>URL_Path := ''/version''\<rparr>) (s\<lparr>base := NewRecorder\<rparr>))
         ''Content-Type'' = Some ''application/json''
   \<and> sent_header
         (ServeHTTP q recorder g sh mh Base (r\<lparr>URL_Path := ''/api/info''\<rparr>) (s\<lparr>base := NewRecorder\<rparr>))
         ''Content-Type'' = Some ''application/json''\<close>
  unfolding version_recorded info_recorded version_info_sent json_Encode_text
    uptime_text [OF assms]
  by simp

theorem version_info_response_witness:
  \<open>startTime (test_globals 1000000 (2 * Second)) \<le> clock test_world (Suc (ticks test_world))
   \<and> startTime (test_globals (- 3720998999999) (2 * Second))
         \<le> clock test_world (Suc (ticks test_world))
   \<and> recorded (ServeHTTP jsonString_plain recorder (test_globals 1000000 (2 * Second))
       (http_NotFound recorder) (http_NotFound recorder) Base (test_request ''/version'')
       (test_world\<lparr>base := NewRecorder\<rparr>))
     = Some (200,
       ''{"name":"Harness Demo App","version":"vTest","commit":"abc123","environment":"development","buildTime":"2025-01-01T00:00:00Z","uptime":"5s","hostname":"host"}''
         @ [CHR 0x0A])
   \<and> recorded (ServeHTTP jsonString_plain recorder (test_globals (- 3720998999999) (2 * Second))
       (http_NotFound recorder) (http_NotFound recorder) Base (test_request ''/api/info'')
       (test_world\<lparr>base := NewRecorder\<rparr>))
     = Some (200,
       ''{"name":"Harness Demo App","version":"vTest","commit":"","environment":"development","buildTime":"2025-01-01T00:00:00Z","uptime":"1h2m5s","hostname":"host"}''
         @ [CHR 0x0A])
   \<and> sent_header (ServeHTTP jsonString_plain recorder (test_globals 1000000 (2 * Second))
       (http_NotFound recorder) (http_NotFound recorder) Base (test_request ''/version'')
       (test_world\<lparr>base := NewRecorder\<rparr>)) ''Content-Type'' = Some ''application/json''\<close>
proof -
  have c: "clock test_world (Suc (ticks test_world)) = 5001000000" "os_Hostname test_world = ''host''"
    by (simp_all add: test_world_def new_world_def)
  have e1: "(test_request ''/version'')\<lparr>URL_Path := ''/version''\<rparr> = test_request ''/version''"
    and e2: "(test_request ''/api/info'')\<lparr>URL_Path := ''/api/info''\<rparr> = test_request ''/api/info''"
    by (simp_all add: test_request_def)
  have t: "seconds_text 5 = ''5s''" "seconds_text 3725 = ''1h2m5s''"
    by (simp_all add: seconds_text_def)
  from version_info_response [of "test_globals 1000000 (2 * Second)" test_world jsonString_plain
      "http_NotFound recorder" "http_NotFound recorder" "test_request ''/version''"]
    version_info_response [of "test_globals (- 3720998999999) (2 * Second)" test_world
      jsonString_plain "http_NotFound recorder" "http_NotFound recorder" "test_request ''/api/info''"]
  show ?thesis
    unfolding e1 e2 c by (simp add: test_globals_def jsonString_plain_def t)
qed

text \<open>
  The claim C8 says that the \<open>/api/info\<close> response is the JSON without the commit member.
  In the scenario of the version test it is not: the body has the member, with the empty
  string as its value.
\<close>

theorem info_commit_counterexample:
  \<open>recorded (ServeHTTP jsonString_plain recorder (test_globals 1000000 (2 * Second))
       (http_NotFound recorder) (http_NotFound recorder) Base (test_request ''/api/info'')
       (test_world\<lparr>base := NewRecorder\<rparr>))
   = Some (200,
       ''{"name":"Harness Demo App","version":"vTest","commit":"","environment":"development","buildTime":"2025-01-01T00:00:00Z","uptime":"5s","hostname":"host"}''
         @ [CHR 0x0A])
   \<and> strings_Contains
       (snd (the (recorded (ServeHTTP jsonString_plain recorder (test_globals 1000000 (2 * Second))
          (http_NotFound recorder) (http_NotFound recorder) Base (test_request ''/api/info'')
          (test_world\<lparr>base := NewRecorder\<rparr>)))))
       ''"commit":''\<close>
proof -
  have c: "clock test_world (Suc (ticks test_world)) = 5001000000" "os_Hostname test_world = ''host''"
    by (simp_all add: test_world_def new_world_def)
  have e: "(test_request ''/api/info'')\<lparr>URL_Path := ''/api/info''\<rparr> = test_request ''/api/info''"
    by (simp add: test_request_def)
  have t: "seconds_text 5 = ''5s''"
    by (simp add: seconds_text_def)
  have u: "Duration_String (Truncate (Time_Sub 5001000000 1000000) Second) = ''5s''"
    using uptime_text [of 1000000 5001000000] by (simp add: t)
  have b: \<open>recorded (ServeHTTP jsonString_plain recorder (test_globals 1000000 (2 * Second))
       (http_NotFound recorder) (http_NotFound recorder) Base (test_request ''/api/info'')
       (test_world\<lparr>base := NewRecorder\<rparr>))
   = Some (200,
       ''{"name":"Harness Demo App","version":"vTest","commit":"","environment":"development","buildTime":"2025-01-01T00:00:00Z","uptime":"5s","hostname":"host"}''
         @ [CHR 0x0A])\<close>
    using info_recorded [of jsonString_plain "test_globals 1000000 (2 * Second)"
        "http_NotFound recorder" "http_NotFound recorder" "test_request ''/api/info''" test_world]
    unfolding e c
    by (simp add: test_globals_def u json_Encode_text jsonString_plain_def)
  show ?thesis
    unfolding b by (simp add: strings_HasPrefix_def)
qed

section \<open>Security headers\<close>

lemmas recorder_defs =
  recorder_def Recorder_Header_Set_def Recorder_WriteHeader_def Recorder_Write_def


lemma pair_obs_base:
  "map_option (\<lambda>s'. (f (base s'), h (base s'))) res
     = map_option (\<lambda>b. (f b, h b)) (map_option base res)"
  by (simp add: option.map_comp comp_def)


lemma map_option_Some_ex:
  "map_option f x = Some y \<Longrightarrow> \<exists>z. x = Some z \<and> f z = y"
  by (cases x) simp_all




















text \<open>
  The redirect with which the mux answers \<open>/static\<close> is sent with none of the four
  headers: the request does not reach a registered handler.
\<close>

lemma static_redirect_response:
  \<open>recorded
     (ServeHTTP jsonString_plain recorder (test_globals 0 (2 * Second))
        (http_NotFound recorder) (http_NotFound recorder) Base (test_request ''/static'')
        (test_world\<lparr>base := NewRecorder\<rparr>))
     = Some (301, ''<a href="/static/">Moved Permanently</a>.'' @ [CHR 0x0A, CHR 0x0A])\<close>
  \<open>sent_headers
     (ServeHTTP jsonString_plain recorder (test_globals 0 (2 * Second))
        (http_NotFound recorder) (http_NotFound recorder) Base (test_request ''/static'')
        (test_world\<lparr>base := NewRecorder\<rparr>))
     [''X-Content-Type-Options'', ''X-Frame-Options'', ''Referrer-Policy'',
      ''Content-Security-Policy'', ''Location'']
     = Some [[], [], [], [], ''/static/'']\<close>
proof -
  have e: "test_request ''/static'' = (test_request ''/static'')\<lparr>URL_Path := ''/static''\<rparr>"
    by (simp add: test_request_def)
  have x: "ServeHTTP jsonString_plain recorder (test_globals 0 (2 * Second))
        (http_NotFound recorder) (http_NotFound recorder) Base (test_request ''/static'')
        (test_world\<lparr>base := NewRecorder\<rparr>)
      = http_Redirect recorder ''/static/'' Base (test_request ''/static'')
          (test_world\<lparr>base := NewRecorder\<rparr>)"
    by (subst e, subst ServeHTTP_redirects(1)) (simp add: test_request_def)
  show \<open>recorded
     (ServeHTTP jsonString_plain recorder (test_globals 0 (2 * Second))
        (http_NotFound recorder) (http_NotFound recorder) Base (test_request ''/static'')
        (test_world\<lparr>base := NewRecorder\<rparr>))
     = Some (301, ''<a href="/static/">Moved Permanently</a>.'' @ [CHR 0x0A, CHR 0x0A])\<close>
    unfolding x
    by (simp add: http_Redirect_def recorded_def test_request_def recorder_defs NewRecorder_def
        Let_def)
  show \<open>sent_headers
     (ServeHTTP jsonString_plain recorder (test_globals 0 (2 * Second))
        (http_NotFound recorder) (http_NotFound recorder) Base (test_request ''/static'')
        (test_world\<lparr>base := NewRecorder\<rparr>))
     [''X-Content-Type-Options'', ''X-Frame-Options'', ''Referrer-Policy'',
      ''Content-Security-Policy'', ''Location'']
     = Some [[], [], [], [], ''/static/'']\<close>
    unfolding x
    by (simp add: http_Redirect_def sent_headers_def test_request_def recorder_defs
        NewRecorder_def Let_def Header_Get_def Result_Header_def)
qed

section \<open>The capturing wrapper\<close>

lemma WriteHeader_Cap_Base:
  "WriteHeader ops (Cap a Base) c s =
     map_option (\<lambda>b. s\<lparr>heap := (heap s)(a := (heap s a)\<lparr>status := c\<rparr>), base := b\<rparr>)
       (rw_WriteHeader ops c (base s))"
  by (simp split: option.splits)

lemma Write_Cap_Base:
  "Write ops (Cap a Base) b s =
     (case rw_Write ops b (base s) of
        ((n, err), b') \<Rightarrow>
          ((n, err),
           s\<lparr>heap := (heap s)(a := (heap s a)
                 \<lparr>status := (if status (heap s a) = 0 then 200 else status (heap s a)),
                  size_written := size_written (heap s a) + n\<rparr>),
             base := b'\<rparr>))"
  by (simp add: Let_def split: prod.splits)

lemma run_calls_capture:
  "run_calls ops (Cap a Base) cs s = Some (ns, s') \<Longrightarrow>
     size_written (heap s' a) = size_written (heap s a) + sum_list ns
     \<and> status (heap s' a) = status_after (status (heap s a)) cs"
proof (induction cs arbitrary: s ns)
  case Nil
  then show ?case by simp
next
  case (Cons x cs)
  show ?case
  proof (cases x)
    case (SetHeader k v)
    with Cons.prems Cons.IH [of "Header_Set ops (Cap a Base) k v s" ns] show ?thesis
      by simp
  next
    case (CallWriteHeader c)
    with Cons.prems obtain b where b: "rw_WriteHeader ops c (base s) = Some b"
      and r: "run_calls ops (Cap a Base) cs
                (s\<lparr>heap := (heap s)(a := (heap s a)\<lparr>status := c\<rparr>), base := b\<rparr>) = Some (ns, s')"
      by (auto simp: WriteHeader_Cap_Base simp del: WriteHeader.simps split: option.splits)
    from Cons.IH [OF r] CallWriteHeader show ?thesis by simp
  next
    case (CallWrite d)
    obtain n err b' where w: "rw_Write ops d (base s) = ((n, err), b')"
      by (metis surj_pair)
    let ?s1 = "s\<lparr>heap := (heap s)(a := (heap s a)
                 \<lparr>status := (if status (heap s a) = 0 then 200 else status (heap s a)),
                  size_written := size_written (heap s a) + n\<rparr>),
               base := b'\<rparr>"
    from Cons.prems CallWrite w obtain ms where ns: "ns = n # ms"
      and r: "run_calls ops (Cap a Base) cs ?s1 = Some (ms, s')"
      by (auto simp: Write_Cap_Base simp del: Write.simps split: option.splits)
    from Cons.IH [OF r] CallWrite ns show ?thesis
      by (simp add: add.assoc)
  qed
qed

lemma run_calls_rest:
  "run_calls ops w cs s = Some (ns, s') \<Longrightarrow>
     logs s' = logs s \<and> ticks s' = ticks s \<and> clock s' = clock s \<and> next_addr s' = next_addr s"
proof (induction cs arbitrary: s ns)
  case Nil
  then show ?case by simp
next
  case (Cons x cs)
  show ?case
  proof (cases x)
    case (SetHeader k v)
    with Cons.prems Cons.IH [of "Header_Set ops w k v s" ns] show ?thesis
      by simp
  next
    case (CallWriteHeader c)
    with Cons.prems obtain s1 where h: "WriteHeader ops w c s = Some s1"
      and r: "run_calls ops w cs s1 = Some (ns, s')"
      by (auto split: option.splits)
    from Cons.IH [OF r] rest_WriteHeader [OF h] show ?thesis by simp
  next
    case (CallWrite d)
    obtain n err s1 where w: "Write ops w d s = ((n, err), s1)"
      by (metis surj_pair)
    with Cons.prems CallWrite obtain ms where r: "run_calls ops w cs s1 = Some (ms, s')"
      by (auto split: option.splits)
    from rest_Write [of ops w d s] w have "logs s1 = logs s" "ticks s1 = ticks s"
      "clock s1 = clock s" "next_addr s1 = next_addr s"
      by simp_all
    with Cons.IH [OF r] show ?thesis by simp
  qed
qed

lemma status_after_spec:
  "status_after st cs =
     (case last_set_status cs of
        Some c \<Rightarrow> if c \<noteq> 0 then c
                  else if list_ex is_Write (calls_after_last_set cs) then 200 else 0
      | None \<Rightarrow> if st \<noteq> 0 then st else if list_ex is_Write cs then 200 else 0)"
proof (induction cs arbitrary: st)
  case Nil
  show ?case by simp
next
  case (Cons x cs)
  have none_iff: "last_set_status ds = None \<longleftrightarrow> \<not> list_ex is_WriteHeader ds" for ds
  proof (induction ds)
    case Nil
    show ?case by simp
  next
    case (Cons y ds)
    then show ?case by (cases y) (auto split: option.splits)
  qed
  show ?case
  proof (cases "last_set_status cs")
    case None
    with none_iff [of cs] have nw: "\<not> list_ex is_WriteHeader cs" by simp
    from None nw Cons.IH show ?thesis
      by (cases x) (auto split: if_splits)
  next
    case (Some c)
    with none_iff [of cs] have w: "list_ex is_WriteHeader cs" by auto
    from Some w Cons.IH show ?thesis
      by (cases x) simp_all
  qed
qed

lemma sint_sum_list:
  "(\<forall>n \<in> set ns. 0 \<le> sint n) \<Longrightarrow> (\<Sum>n\<leftarrow>ns. sint n) < 2 ^ 63 \<Longrightarrow>
     sint (sum_list ns :: 64 word) = (\<Sum>n\<leftarrow>ns. sint n)"
proof (induction ns)
  case Nil
  show ?case by simp
next
  case (Cons n ns)
  have nonneg: "0 \<le> (\<Sum>n\<leftarrow>ns. sint n)"
    using Cons.prems(1) by (auto intro!: sum_list_nonneg)
  from Cons.prems have n0: "0 \<le> sint n" by simp
  with Cons.prems(2) have "(\<Sum>n\<leftarrow>ns. sint n) < 2 ^ 63" by simp
  with Cons.IH Cons.prems(1) have ih: "sint (sum_list ns) = (\<Sum>n\<leftarrow>ns. sint n)" by simp
  have "sint (n + sum_list ns) = signed_take_bit 63 (sint n + sint (sum_list ns))"
    by (simp add: sint_word_ariths)
  also have "\<dots> = sint n + sint (sum_list ns)"
    using n0 nonneg Cons.prems(2) ih by (intro signed_take_bit_int_eq_self) simp_all
  finally show ?case using ih by simp
qed

text \<open>
  C4, as the code has it. For a sequence of calls on a new \<open>rwCapture\<close> around a
  response writer, once all calls have returned: the captured byte count is the sum, in
  Go's \<open>int\<close> arithmetic, of the counts that the \<open>Write\<close> calls returned, which is their
  exact sum when the counts are not negative and the sum is below \<open>2^63\<close>; the captured
  status is the code of the last \<open>WriteHeader\<close> call when that code is not 0; a status
  of 0 stands for "not set", so when no \<open>WriteHeader\<close> call was made, or the last one
  set 0, the status is 200 if a \<open>Write\<close> followed and 0 if none did.
\<close>

theorem capture_size_and_status:
  assumes "run_calls ops (Cap a Base) cs
             (s\<lparr>heap := (heap s)(a := \<lparr>status = 0, size_written = 0\<rparr>)\<rparr>) = Some (ns, s')"
  shows "size_written (heap s' a) = sum_list ns
    \<and> ((\<forall>n \<in> set ns. 0 \<le> sint n) \<and> (\<Sum>n\<leftarrow>ns. sint n) < 2 ^ 63 \<longrightarrow>
         sint (size_written (heap s' a)) = (\<Sum>n\<leftarrow>ns. sint n))
    \<and> status (heap s' a) =
        (case last_set_status cs of
           Some c \<Rightarrow> if c \<noteq> 0 then c
                     else if list_ex is_Write (calls_after_last_set cs) then 200 else 0
         | None \<Rightarrow> if list_ex is_Write cs then 200 else 0)"
proof -
  from run_calls_capture [OF assms]
  have sz: "size_written (heap s' a) = sum_list ns"
    and st: "status (heap s' a) = status_after 0 cs"
    by simp_all
  from sz have "(\<forall>n \<in> set ns. 0 \<le> sint n) \<and> (\<Sum>n\<leftarrow>ns. sint n) < 2 ^ 63 \<longrightarrow>
         sint (size_written (heap s' a)) = (\<Sum>n\<leftarrow>ns. sint n)"
    by (simp add: sint_sum_list)
  with sz st show ?thesis
    by (simp add: status_after_spec [of 0 cs])
qed

theorem capture_size_and_status_witness:
  "run_calls recorder (Cap 0 Base)
     [SetHeader ''Content-Type'' ''text/plain'', CallWrite ''hello'', CallWriteHeader 404,
      CallWrite ''!!'']
     (test_world\<lparr>heap := (heap test_world)(0 := \<lparr>status = 0, size_written = 0\<rparr>)\<rparr>)
   = Some ([5, 2],
       test_world\<lparr>heap := (heap test_world)(0 := \<lparr>status = 404, size_written = 7\<rparr>),
         base := \<lparr>HeaderMap = [''Content-Type'' \<mapsto> [''text/plain'']], Body = ''hello!!'',
                   Code = 200, wroteHeader = True,
                   snapHeader = [''Content-Type'' \<mapsto> [''text/plain'']]\<rparr>\<rparr>)
   \<and> 0 \<le> sint (5 :: go_int) \<and> 0 \<le> sint (2 :: go_int)
   \<and> (\<Sum>n\<leftarrow>[5, 2 :: go_int]. sint n) < 2 ^ 63
   \<and> map_option (\<lambda>(ns, s'). (size_written (heap s' 0), sint (size_written (heap s' 0)),
                                 status (heap s' 0)))
        (run_calls recorder (Cap 0 Base)
           [SetHeader ''Content-Type'' ''text/plain'', CallWrite ''hello'', CallWriteHeader 404,
            CallWrite ''!!'']
           (test_world\<lparr>heap := (heap test_world)(0 := \<lparr>status = 0, size_written = 0\<rparr>)\<rparr>))
       = Some (7, 7, 404)"
proof -
  have run: "run_calls recorder (Cap 0 Base)
     [SetHeader ''Content-Type'' ''text/plain'', CallWrite ''hello'', CallWriteHeader 404,
      CallWrite ''!!'']
     (test_world\<lparr>heap := (heap test_world)(0 := \<lparr>status = 0, size_written = 0\<rparr>)\<rparr>)
   = Some ([5, 2],
       test_world\<lparr>heap := (heap test_world)(0 := \<lparr>status = 404, size_written = 7\<rparr>),
         base := \<lparr>HeaderMap = [''Content-Type'' \<mapsto> [''text/plain'']], Body = ''hello!!'',
                   Code = 200, wroteHeader = True,
                   snapHeader = [''Content-Type'' \<mapsto> [''text/plain'']]\<rparr>\<rparr>)"
    by (simp add: test_world_def new_world_def NewRecorder_def recorder_defs Let_def)
  from capture_size_and_status [OF run] run show ?thesis
    by simp
qed

text \<open>
  The claim C4 says that the captured status is the last explicitly set status code. After
  \<open>WriteHeader(200)\<close>, \<open>WriteHeader(0)\<close>, \<open>Write("x")\<close> on a recorder (the second call is
  ignored by the recorder, which has written its header, and does not panic) the last
  code set is 0 and the captured status is 200.
\<close>

theorem capture_status_counterexample:
  "map_option (\<lambda>(ns, s'). status (heap s' 0))
     (run_calls recorder (Cap 0 Base) [CallWriteHeader 200, CallWriteHeader 0, CallWrite ''x'']
        (test_world\<lparr>heap := (heap test_world)(0 := \<lparr>status = 0, size_written = 0\<rparr>)\<rparr>))
     = Some 200
   \<and> last_set_status [CallWriteHeader 200, CallWriteHeader 0, CallWrite ''x''] = Some 0"
  by (simp add: test_world_def new_world_def NewRecorder_def recorder_defs Let_def)

section \<open>The logging middleware\<close>

lemma sdiv_nonneg: "0 \<le> a \<Longrightarrow> (a :: int) sdiv 1000000 = a div 1000000"
  by (cases "a = 0") (simp_all add: signed_divide_int_def)

lemma Milliseconds_Time_Sub:
  assumes "u \<le> t"
  shows "Milliseconds (Time_Sub t u) = word_of_int (min (2 ^ 63 - 1) (t - u) div 1000000)"
proof -
  from assms have e: "sint (Time_Sub t u) = min (2 ^ 63 - 1) (t - u)"
    "0 \<le> min (2 ^ 63 - 1) (t - u)"
    by (auto simp: sint_Time_Sub maxDuration_def minDuration_def)
  then show ?thesis
    by (simp only: Milliseconds_def sdiv_nonneg)
qed

lemma Milliseconds_1ms: "Milliseconds (Time_Sub 5001000000 5000000000) = 1"
  using Milliseconds_Time_Sub [of 5000000000 5001000000] by simp

lemma calls_handler_logging:
  assumes "run_calls ops (Cap (next_addr s) w) cs
             (s\<lparr>ticks := Suc (ticks s),
                heap := (heap s)(next_addr s := \<lparr>status = 0, size_written = 0\<rparr>),
                next_addr := Suc (next_addr s)\<rparr>) = Some (ns, s3)"
  shows "withLogging (calls_handler ops cs) w r s =
           Some (s3\<lparr>ticks := Suc (Suc (ticks s)),
                   logs := logs s @
                     [request_record r (heap s3 (next_addr s))
                        (Time_Sub (clock s (Suc (ticks s))) (clock s (ticks s)))]\<rparr>)"
  using run_calls_rest [OF assms] assms
  by (simp add: withLogging_result calls_handler_def)

text \<open>
  C5. The logging middleware reads the clock, then calls the inner handler on a new
  \<open>rwCapture\<close> (the handler starts with one clock reading taken). When the handler has
  returned, the middleware appends one record to the log as the handler left it: message
  \<open>request\<close> with the attributes method, path, status, bytes, remote and dur_ms, in this
  order. Method, path and remote are those of the request, status and bytes are the
  counters of the \<open>rwCapture\<close> as the handler left them, and, the clock not running
  backwards, dur_ms is the number of whole milliseconds (a millisecond is 1000000 ns) in
  the time from the reading taken before the call to the reading taken after the handler
  returned, that time being cut to the largest duration, 2^63 - 1 ns. The response itself
  is what the handler made it. When the handler panics, so does the middleware, and no
  record is written. For a handler that does nothing but call its writer, the log after
  the request is the log before it and this one record.
\<close>

theorem logging_emits_one_record:
  "(next (Cap (next_addr s) w) r
         (s\<lparr>ticks := Suc (ticks s),
            heap := (heap s)(next_addr s := \<lparr>status = 0, size_written = 0\<rparr>),
            next_addr := Suc (next_addr s)\<rparr>) = Some s3
       \<and> clock s (ticks s) \<le> clock s3 (ticks s3) \<longrightarrow>
       map_option logs (withLogging next w r s) =
         Some (logs s3 @
           [\<lparr>msg = ''request'',
             attrs = [(''method'', StrV (Method r)), (''path'', StrV (URL_Path r)),
                      (''status'', IntV (status (heap s3 (next_addr s)))),
                      (''bytes'', IntV (size_written (heap s3 (next_addr s)))),
                      (''remote'', StrV (RemoteAddr r)),
                      (''dur_ms'', IntV (word_of_int
                         (min (2 ^ 63 - 1) (clock s3 (ticks s3) - clock s (ticks s))
                            div 1000000)))]\<rparr>])
       \<and> map_option base (withLogging next w r s) = Some (base s3))
   \<and> (next (Cap (next_addr s) w) r
         (s\<lparr>ticks := Suc (ticks s),
            heap := (heap s)(next_addr s := \<lparr>status = 0, size_written = 0\<rparr>),
            next_addr := Suc (next_addr s)\<rparr>) = None \<longrightarrow> withLogging next w r s = None)
   \<and> (run_calls ops (Cap (next_addr s) w) cs
         (s\<lparr>ticks := Suc (ticks s),
            heap := (heap s)(next_addr s := \<lparr>status = 0, size_written = 0\<rparr>),
            next_addr := Suc (next_addr s)\<rparr>) = Some (ns, s3)
       \<and> clock s (ticks s) \<le> clock s (Suc (ticks s)) \<longrightarrow>
       map_option logs (withLogging (calls_handler ops cs) w r s) =
         Some (logs s @
           [\<lparr>msg = ''request'',
             attrs = [(''method'', StrV (Method r)), (''path'', StrV (URL_Path r)),
                      (''status'', IntV (status (heap s3 (next_addr s)))),
                      (''bytes'', IntV (size_written (heap s3 (next_addr s)))),
                      (''remote'', StrV (RemoteAddr r)),
                      (''dur_ms'', IntV (word_of_int
                         (min (2 ^ 63 - 1) (clock s (Suc (ticks s)) - clock s (ticks s))
                            div 1000000)))]\<rparr>]))"
proof (intro conjI impI)
  assume a: "next (Cap (next_addr s) w) r
         (s\<lparr>ticks := Suc (ticks s),
            heap := (heap s)(next_addr s := \<lparr>status = 0, size_written = 0\<rparr>),
            next_addr := Suc (next_addr s)\<rparr>) = Some s3
       \<and> clock s (ticks s) \<le> clock s3 (ticks s3)"
  then have n: "next (Cap (next_addr s) w) r
         (s\<lparr>ticks := Suc (ticks s),
            heap := (heap s)(next_addr s := \<lparr>status = 0, size_written = 0\<rparr>),
            next_addr := Suc (next_addr s)\<rparr>) = Some s3"
    and c: "clock s (ticks s) \<le> clock s3 (ticks s3)"
    by simp_all
  show "map_option logs (withLogging next w r s) =
         Some (logs s3 @
           [\<lparr>msg = ''request'',
             attrs = [(''method'', StrV (Method r)), (''path'', StrV (URL_Path r)),
                      (''status'', IntV (status (heap s3 (next_addr s)))),
                      (''bytes'', IntV (size_written (heap s3 (next_addr s)))),
                      (''remote'', StrV (RemoteAddr r)),
                      (''dur_ms'', IntV (word_of_int
                         (min (2 ^ 63 - 1) (clock s3 (ticks s3) - clock s (ticks s))
                            div 1000000)))]\<rparr>])"
    unfolding withLogging_result n
    by (simp add: request_record_def Milliseconds_Time_Sub [OF c])
  show "map_option base (withLogging next w r s) = Some (base s3)"
    unfolding withLogging_result n by simp
next
  assume "next (Cap (next_addr s) w) r
         (s\<lparr>ticks := Suc (ticks s),
            heap := (heap s)(next_addr s := \<lparr>status = 0, size_written = 0\<rparr>),
            next_addr := Suc (next_addr s)\<rparr>) = None"
  then show "withLogging next w r s = None"
    unfolding withLogging_result by simp
next
  assume a: "run_calls ops (Cap (next_addr s) w) cs
         (s\<lparr>ticks := Suc (ticks s),
            heap := (heap s)(next_addr s := \<lparr>status = 0, size_written = 0\<rparr>),
            next_addr := Suc (next_addr s)\<rparr>) = Some (ns, s3)
       \<and> clock s (ticks s) \<le> clock s (Suc (ticks s))"
  then have n: "run_calls ops (Cap (next_addr s) w) cs
         (s\<lparr>ticks := Suc (ticks s),
            heap := (heap s)(next_addr s := \<lparr>status = 0, size_written = 0\<rparr>),
            next_addr := Suc (next_addr s)\<rparr>) = Some (ns, s3)"
    and c: "clock s (ticks s) \<le> clock s (Suc (ticks s))"
    by simp_all
  show "map_option logs (withLogging (calls_handler ops cs) w r s) =
         Some (logs s @
           [\<lparr>msg = ''request'',
             attrs = [(''method'', StrV (Method r)), (''path'', StrV (URL_Path r)),
                      (''status'', IntV (status (heap s3 (next_addr s)))),
                      (''bytes'', IntV (size_written (heap s3 (next_addr s)))),
                      (''remote'', StrV (RemoteAddr r)),
                      (''dur_ms'', IntV (word_of_int
                         (min (2 ^ 63 - 1) (clock s (Suc (ticks s)) - clock s (ticks s))
                            div 1000000)))]\<rparr>])"
    unfolding calls_handler_logging [OF n]
    by (simp add: request_record_def Milliseconds_Time_Sub [OF c])
qed

theorem logging_emits_one_record_witness:
  \<open>run_calls recorder (Cap (next_addr test_world) Base)
     [SetHeader ''Content-Type'' ''application/json'', CallWriteHeader 503,
      CallWrite ''{"status":"warming"}'']
     (test_world\<lparr>ticks := Suc (ticks test_world),
        heap := (heap test_world)(next_addr test_world := \<lparr>status = 0, size_written = 0\<rparr>),
        next_addr := Suc (next_addr test_world)\<rparr>)
   = Some ([20],
       test_world\<lparr>ticks := 1, next_addr := 1,
         heap := (heap test_world)(0 := \<lparr>status = 503, size_written = 20\<rparr>),
         base := \<lparr>HeaderMap = [''Content-Type'' \<mapsto> [''application/json'']],
                   Body = ''{"status":"warming"}'', Code = 503, wroteHeader = True,
                   snapHeader = [''Content-Type'' \<mapsto> [''application/json'']]\<rparr>\<rparr>)
   \<and> clock test_world (ticks test_world) \<le> clock test_world (Suc (ticks test_world))
   \<and> map_option logs
        (withLogging
           (calls_handler recorder
              [SetHeader ''Content-Type'' ''application/json'', CallWriteHeader 503,
               CallWrite ''{"status":"warming"}''])
           Base (test_request ''/readyz'') test_world)
       = Some [\<lparr>msg = ''request'',
                 attrs = [(''method'', StrV ''GET''), (''path'', StrV ''/readyz''),
                          (''status'', IntV 503), (''bytes'', IntV 20),
                          (''remote'', StrV ''192.0.2.1:1234''), (''dur_ms'', IntV 1)]\<rparr>]
   \<and> map_option logs
        (withLogging (\<lambda>w r s. Some s) Base (test_request ''/'')
           (test_world\<lparr>clock := \<lambda>k. 7000000 + 2500000 * int k\<rparr>))
       = Some [\<lparr>msg = ''request'',
                 attrs = [(''method'', StrV ''GET''), (''path'', StrV ''/''),
                          (''status'', IntV 0), (''bytes'', IntV 0),
                          (''remote'', StrV ''192.0.2.1:1234''), (''dur_ms'', IntV 2)]\<rparr>]
   \<and> map_option logs
        (withLogging (\<lambda>w r s. Some s) Base (test_request ''/'')
           (test_world\<lparr>clock := \<lambda>k. 999999 * int k\<rparr>))
       = Some [\<lparr>msg = ''request'',
                 attrs = [(''method'', StrV ''GET''), (''path'', StrV ''/''),
                          (''status'', IntV 0), (''bytes'', IntV 0),
                          (''remote'', StrV ''192.0.2.1:1234''), (''dur_ms'', IntV 0)]\<rparr>]
   \<and> map_option logs
        (withLogging (\<lambda>w r s. Some s) Base (test_request ''/'')
           (test_world\<lparr>clock := \<lambda>k. 3725999999999 * int k\<rparr>))
       = Some [\<lparr>msg = ''request'',
                 attrs = [(''method'', StrV ''GET''), (''path'', StrV ''/''),
                          (''status'', IntV 0), (''bytes'', IntV 0),
                          (''remote'', StrV ''192.0.2.1:1234''), (''dur_ms'', IntV 3725999)]\<rparr>]
   \<and> withLogging (\<lambda>w r s. None) Base (test_request ''/'') test_world = None\<close>
proof -
  have run: \<open>run_calls recorder (Cap (next_addr test_world) Base)
     [SetHeader ''Content-Type'' ''application/json'', CallWriteHeader 503,
      CallWrite ''{"status":"warming"}'']
     (test_world\<lparr>ticks := Suc (ticks test_world),
        heap := (heap test_world)(next_addr test_world := \<lparr>status = 0, size_written = 0\<rparr>),
        next_addr := Suc (next_addr test_world)\<rparr>)
   = Some ([20],
       test_world\<lparr>ticks := 1, next_addr := 1,
         heap := (heap test_world)(0 := \<lparr>status = 503, size_written = 20\<rparr>),
         base := \<lparr>HeaderMap = [''Content-Type'' \<mapsto> [''application/json'']],
                   Body = ''{"status":"warming"}'', Code = 503, wroteHeader = True,
                   snapHeader = [''Content-Type'' \<mapsto> [''application/json'']]\<rparr>\<rparr>)\<close>
    by (simp add: test_world_def new_world_def NewRecorder_def recorder_defs Let_def)
  have c: "clock test_world (Suc 0) = 5001000000" "clock test_world 0 = 5000000000"
    "logs test_world = []" "next_addr test_world = 0" "ticks test_world = 0"
    by (simp_all add: test_world_def new_world_def)
  have m: "clock test_world (ticks test_world) \<le> clock test_world (Suc (ticks test_world))"
    by (simp add: c)
  from logging_emits_one_record [THEN conjunct2, THEN conjunct2, rule_format, OF conjI, OF run m,
      of "test_request ''/readyz''"]
  have 1: \<open>map_option logs
        (withLogging
           (calls_handler recorder
              [SetHeader ''Content-Type'' ''application/json'', CallWriteHeader 503,
               CallWrite ''{"status":"warming"}''])
           Base (test_request ''/readyz'') test_world)
       = Some [\<lparr>msg = ''request'',
                 attrs = [(''method'', StrV ''GET''), (''path'', StrV ''/readyz''),
                          (''status'', IntV 503), (''bytes'', IntV 20),
                          (''remote'', StrV ''192.0.2.1:1234''), (''dur_ms'', IntV 1)]\<rparr>]\<close>
    by (simp add: c test_request_def)
  have silent: \<open>map_option logs
        (withLogging (\<lambda>w r s. Some s) Base (test_request ''/'') (test_world\<lparr>clock := clk\<rparr>))
       = Some [\<lparr>msg = ''request'',
                 attrs = [(''method'', StrV ''GET''), (''path'', StrV ''/''),
                          (''status'', IntV 0), (''bytes'', IntV 0),
                          (''remote'', StrV ''192.0.2.1:1234''),
                          (''dur_ms'', IntV (word_of_int (min (2 ^ 63 - 1) (clk 1 - clk 0) div 1000000)))]\<rparr>]\<close>
    if "clk 0 \<le> clk 1" for clk
    using that
      logging_emits_one_record [THEN conjunct1, rule_format, THEN conjunct1,
        of "\<lambda>w r s. Some s" "test_world\<lparr>clock := clk\<rparr>" Base "test_request ''/''"
           "test_world\<lparr>clock := clk, ticks := 1,
              heap := (heap test_world)(0 := \<lparr>status = 0, size_written = 0\<rparr>), next_addr := 1\<rparr>"]
    by (simp add: c test_request_def)
  have 2: \<open>map_option logs
        (withLogging (\<lambda>w r s. Some s) Base (test_request ''/'')
           (test_world\<lparr>clock := \<lambda>k. 7000000 + 2500000 * int k\<rparr>))
       = Some [\<lparr>msg = ''request'',
                 attrs = [(''method'', StrV ''GET''), (''path'', StrV ''/''),
                          (''status'', IntV 0), (''bytes'', IntV 0),
                          (''remote'', StrV ''192.0.2.1:1234''), (''dur_ms'', IntV 2)]\<rparr>]\<close>
    using silent [of "\<lambda>k. 7000000 + 2500000 * int k"] by simp
  have 3: \<open>map_option logs
        (withLogging (\<lambda>w r s. Some s) Base (test_request ''/'')
           (test_world\<lparr>clock := \<lambda>k. 999999 * int k\<rparr>))
       = Some [\<lparr>msg = ''request'',
                 attrs = [(''method'', StrV ''GET''), (''path'', StrV ''/''),
                          (''status'', IntV 0), (''bytes'', IntV 0),
                          (''remote'', StrV ''192.0.2.1:1234''), (''dur_ms'', IntV 0)]\<rparr>]\<close>
    using silent [of "\<lambda>k. 999999 * int k"] by simp
  have 4: \<open>map_option logs
        (withLogging (\<lambda>w r s. Some s) Base (test_request ''/'')
           (test_world\<lparr>clock := \<lambda>k. 3725999999999 * int k\<rparr>))
       = Some [\<lparr>msg = ''request'',
                 attrs = [(''method'', StrV ''GET''), (''path'', StrV ''/''),
                          (''status'', IntV 0), (''bytes'', IntV 0),
                          (''remote'', StrV ''192.0.2.1:1234''), (''dur_ms'', IntV 3725999)]\<rparr>]\<close>
    using silent [of "\<lambda>k. 3725999999999 * int k"] by simp
  have 5: "withLogging (\<lambda>w r s. None) Base (test_request ''/'') test_world = None"
    using logging_emits_one_record [THEN conjunct2, THEN conjunct1,
        of "\<lambda>w r s. None" test_world Base "test_request ''/''"]
    by simp
  from run m 1 2 3 4 5 show ?thesis by (simp only: simp_thms)
qed

section \<open>A handler that never writes\<close>

lemma silent_run:
  "\<not> list_ex is_WriteHeader cs \<Longrightarrow> \<not> list_ex is_Write cs \<Longrightarrow>
     \<exists>s'. run_calls ops w cs s = Some ([], s') \<and> heap s' = heap s"
proof (induction cs arbitrary: s)
  case Nil
  show ?case by simp
next
  case (Cons x cs)
  show ?case
  proof (cases x)
    case (SetHeader k v)
    from Cons.prems Cons.IH [of "Header_Set ops w k v s"] SetHeader show ?thesis
      by simp
  next
    case (CallWriteHeader c)
    with Cons.prems show ?thesis by simp
  next
    case (CallWrite d)
    with Cons.prems show ?thesis by simp
  qed
qed

lemma home_empty_page:
  assumes "indexHTML g = []"
  shows "chain (homeHandler ops g) [withSecurityHeaders ops, withLogging] Base
           (r\<lparr>URL_Path := ''/''\<rparr>) s
         = Some ((enter_chain ops s)
             \<lparr>base := rw_Header_Set ops ''Content-Type'' ''text/html; charset=utf-8''
                        (rw_security_headers ops (base s)),
              ticks := Suc (Suc (ticks s)),
              logs := logs s @
                [request_record (r\<lparr>URL_Path := ''/''\<rparr>) \<lparr>status = 0, size_written = 0\<rparr>
                   (Time_Sub (clock s (Suc (ticks s))) (clock s (ticks s)))]\<rparr>)"
  using assms
  by (simp add: chain_sec_log withSecurityHeaders_Base withLogging_result homeHandler_def
      io_Copy_bytes_def enter_chain_def)

text \<open>
  C10. When the inner handler returns without a call of \<open>Write\<close> or \<open>WriteHeader\<close> on the
  wrapper, both counters of the \<open>rwCapture\<close> are still 0 and the record that the logging
  middleware writes has status 0 and bytes 0. Without a \<open>WriteHeader\<close> call the captured
  status is 200 exactly when a \<open>Write\<close> call was made. The root handler with an empty
  page is such a handler: the recorder reports 200 and the log record status 0.
\<close>

theorem silent_handler_logs_status_zero:
  "(\<not> list_ex is_WriteHeader cs \<and> \<not> list_ex is_Write cs \<longrightarrow>
      (\<exists>s'. withLogging (calls_handler ops cs) w r s = Some s'
         \<and> heap s' (next_addr s) = \<lparr>status = 0, size_written = 0\<rparr>
         \<and> logs s' = logs s @
               [\<lparr>msg = ''request'',
                 attrs = [(''method'', StrV (Method r)), (''path'', StrV (URL_Path r)),
                          (''status'', IntV 0), (''bytes'', IntV 0),
                          (''remote'', StrV (RemoteAddr r)),
                          (''dur_ms'', IntV (Milliseconds
                             (Time_Sub (clock s (Suc (ticks s))) (clock s (ticks s)))))]\<rparr>]))
   \<and> (\<not> list_ex is_WriteHeader cs
        \<and> run_calls ops (Cap a Base) cs
             (s\<lparr>heap := (heap s)(a := \<lparr>status = 0, size_written = 0\<rparr>)\<rparr>) = Some (ns, s3) \<longrightarrow>
        status (heap s3 a) = (if list_ex is_Write cs then 200 else 0))
   \<and> (indexHTML g = [] \<longrightarrow>
        map_option (\<lambda>s'. (Code (base s'), map (\<lambda>l. map_of (attrs l) ''status'') (logs s')))
          (chain (homeHandler recorder g) [withSecurityHeaders recorder, withLogging] Base
             (r\<lparr>URL_Path := ''/''\<rparr>) (s\<lparr>base := NewRecorder, logs := []\<rparr>))
        = Some (200, [Some (IntV 0)]))"
proof (intro conjI impI)
  assume a: "\<not> list_ex is_WriteHeader cs \<and> \<not> list_ex is_Write cs"
  let ?s2 = "s\<lparr>ticks := Suc (ticks s),
               heap := (heap s)(next_addr s := \<lparr>status = 0, size_written = 0\<rparr>),
               next_addr := Suc (next_addr s)\<rparr>"
  from a silent_run [of cs ops "Cap (next_addr s) w" ?s2]
  obtain s3 where run: "run_calls ops (Cap (next_addr s) w) cs ?s2 = Some ([], s3)"
    and h: "heap s3 = heap ?s2"
    by blast
  from calls_handler_logging [OF run, of r] h
  show "\<exists>s'. withLogging (calls_handler ops cs) w r s = Some s'
         \<and> heap s' (next_addr s) = \<lparr>status = 0, size_written = 0\<rparr>
         \<and> logs s' = logs s @
               [\<lparr>msg = ''request'',
                 attrs = [(''method'', StrV (Method r)), (''path'', StrV (URL_Path r)),
                          (''status'', IntV 0), (''bytes'', IntV 0),
                          (''remote'', StrV (RemoteAddr r)),
                          (''dur_ms'', IntV (Milliseconds
                             (Time_Sub (clock s (Suc (ticks s))) (clock s (ticks s)))))]\<rparr>]"
    by (simp add: request_record_def)
next
  assume b: "\<not> list_ex is_WriteHeader cs
        \<and> run_calls ops (Cap a Base) cs
             (s\<lparr>heap := (heap s)(a := \<lparr>status = 0, size_written = 0\<rparr>)\<rparr>) = Some (ns, s3)"
  have none: "last_set_status ds = None" if "\<not> list_ex is_WriteHeader ds" for ds
    using that
  proof (induction ds)
    case Nil
    show ?case by simp
  next
    case (Cons y ds)
    then show ?case by (cases y) simp_all
  qed
  from b have run: "run_calls ops (Cap a Base) cs
             (s\<lparr>heap := (heap s)(a := \<lparr>status = 0, size_written = 0\<rparr>)\<rparr>) = Some (ns, s3)"
    by simp
  from run_calls_capture [OF run]
  have "status (heap s3 a) = status_after 0 cs" by simp
  with b none [of cs] show "status (heap s3 a) = (if list_ex is_Write cs then 200 else 0)"
    by (simp add: status_after_spec [of 0 cs])
next
  assume e: "indexHTML g = []"
  show "map_option (\<lambda>s'. (Code (base s'), map (\<lambda>l. map_of (attrs l) ''status'') (logs s')))
          (chain (homeHandler recorder g) [withSecurityHeaders recorder, withLogging] Base
             (r\<lparr>URL_Path := ''/''\<rparr>) (s\<lparr>base := NewRecorder, logs := []\<rparr>))
        = Some (200, [Some (IntV 0)])"
    by (simp add: home_empty_page [OF e] request_record_def recorder_defs
        rw_security_headers_def NewRecorder_def)
qed

theorem silent_handler_logs_status_zero_witness:
  "\<not> list_ex is_WriteHeader [SetHeader ''Content-Type'' ''text/html; charset=utf-8'']
   \<and> \<not> list_ex is_Write [SetHeader ''Content-Type'' ''text/html; charset=utf-8'']
   \<and> map_option logs
        (withLogging (calls_handler recorder [SetHeader ''Content-Type'' ''text/html; charset=utf-8''])
           Base (test_request ''/'') test_world)
       = Some [\<lparr>msg = ''request'',
                 attrs = [(''method'', StrV ''GET''), (''path'', StrV ''/''),
                          (''status'', IntV 0), (''bytes'', IntV 0),
                          (''remote'', StrV ''192.0.2.1:1234''), (''dur_ms'', IntV 1)]\<rparr>]
   \<and> map_option (\<lambda>s'. heap s' 0)
        (withLogging (calls_handler recorder [SetHeader ''Content-Type'' ''text/html; charset=utf-8''])
           Base (test_request ''/'') test_world)
       = Some \<lparr>status = 0, size_written = 0\<rparr>
   \<and> \<not> list_ex is_WriteHeader [SetHeader ''Content-Type'' ''text/plain'', CallWrite ''x'']
   \<and> run_calls recorder (Cap 0 Base) [SetHeader ''Content-Type'' ''text/plain'', CallWrite ''x'']
         (test_world\<lparr>heap := (heap test_world)(0 := \<lparr>status = 0, size_written = 0\<rparr>)\<rparr>)
       = Some ([1],
           test_world\<lparr>heap := (heap test_world)(0 := \<lparr>status = 200, size_written = 1\<rparr>),
             base := \<lparr>HeaderMap = [''Content-Type'' \<mapsto> [''text/plain'']], Body = ''x'',
                       Code = 200, wroteHeader = True,
                       snapHeader = [''Content-Type'' \<mapsto> [''text/plain'']]\<rparr>\<rparr>)
   \<and> map_option (\<lambda>(ns, s'). status (heap s' 0))
        (run_calls recorder (Cap 0 Base) [SetHeader ''Content-Type'' ''text/plain'', CallWrite ''x'']
           (test_world\<lparr>heap := (heap test_world)(0 := \<lparr>status = 0, size_written = 0\<rparr>)\<rparr>))
       = Some 200
   \<and> indexHTML ((test_globals 0 (2 * Second))\<lparr>indexHTML := []\<rparr>) = []
   \<and> map_option (\<lambda>s'. (Code (base s'), map (\<lambda>l. map_of (attrs l) ''status'') (logs s')))
        (chain (homeHandler recorder ((test_globals 0 (2 * Second))\<lparr>indexHTML := []\<rparr>))
           [withSecurityHeaders recorder, withLogging] Base
           ((test_request ''/'')\<lparr>URL_Path := ''/''\<rparr>) (test_world\<lparr>base := NewRecorder, logs := []\<rparr>))
       = Some (200, [Some (IntV 0)])"
proof -
  have run: "run_calls recorder (Cap 0 Base) [SetHeader ''Content-Type'' ''text/plain'', CallWrite ''x'']
         (test_world\<lparr>heap := (heap test_world)(0 := \<lparr>status = 0, size_written = 0\<rparr>)\<rparr>)
       = Some ([1],
           test_world\<lparr>heap := (heap test_world)(0 := \<lparr>status = 200, size_written = 1\<rparr>),
             base := \<lparr>HeaderMap = [''Content-Type'' \<mapsto> [''text/plain'']], Body = ''x'',
                       Code = 200, wroteHeader = True,
                       snapHeader = [''Content-Type'' \<mapsto> [''text/plain'']]\<rparr>\<rparr>)"
    by (simp add: test_world_def new_world_def NewRecorder_def recorder_defs Let_def)
  have nw: "\<not> list_ex is_WriteHeader [SetHeader ''Content-Type'' ''text/plain'', CallWrite ''x'']" by simp
  from silent_handler_logs_status_zero [THEN conjunct2, THEN conjunct1, rule_format,
      OF conjI [OF nw run]] run
  have p2: "map_option (\<lambda>(ns, s'). status (heap s' 0))
        (run_calls recorder (Cap 0 Base) [SetHeader ''Content-Type'' ''text/plain'', CallWrite ''x'']
           (test_world\<lparr>heap := (heap test_world)(0 := \<lparr>status = 0, size_written = 0\<rparr>)\<rparr>))
       = Some 200"
    by simp
  have ie: "indexHTML ((test_globals 0 (2 * Second))\<lparr>indexHTML := []\<rparr>) = []" by simp
  note p3 = silent_handler_logs_status_zero [THEN conjunct2, THEN conjunct2, rule_format, OF ie,
      of "test_request ''/''" test_world]
  have h: "\<not> list_ex is_WriteHeader [SetHeader ''Content-Type'' ''text/html; charset=utf-8'']
   \<and> \<not> list_ex is_Write [SetHeader ''Content-Type'' ''text/html; charset=utf-8'']"
    by simp
  have c: "clock test_world (Suc (ticks test_world)) = 5001000000"
    "clock test_world (ticks test_world) = 5000000000" "logs test_world = []"
    "next_addr test_world = 0"
    by (simp_all add: test_world_def new_world_def)
  from silent_handler_logs_status_zero [THEN conjunct1, rule_format, OF h,
      of recorder Base "test_request ''/''" test_world]
  obtain s' where
    "withLogging (calls_handler recorder [SetHeader ''Content-Type'' ''text/html; charset=utf-8''])
       Base (test_request ''/'') test_world = Some s'"
    and "heap s' 0 = \<lparr>status = 0, size_written = 0\<rparr>"
    and "logs s' = [\<lparr>msg = ''request'',
                 attrs = [(''method'', StrV ''GET''), (''path'', StrV ''/''),
                          (''status'', IntV 0), (''bytes'', IntV 0),
                          (''remote'', StrV ''192.0.2.1:1234''), (''dur_ms'', IntV 1)]\<rparr>]"
    unfolding c Milliseconds_1ms by (auto simp: test_request_def)
  then have p1: "map_option logs
        (withLogging (calls_handler recorder [SetHeader ''Content-Type'' ''text/html; charset=utf-8''])
           Base (test_request ''/'') test_world)
       = Some [\<lparr>msg = ''request'',
                 attrs = [(''method'', StrV ''GET''), (''path'', StrV ''/''),
                          (''status'', IntV 0), (''bytes'', IntV 0),
                          (''remote'', StrV ''192.0.2.1:1234''), (''dur_ms'', IntV 1)]\<rparr>]
   \<and> map_option (\<lambda>s'. heap s' 0)
        (withLogging (calls_handler recorder [SetHeader ''Content-Type'' ''text/html; charset=utf-8''])
           Base (test_request ''/'') test_world)
       = Some \<lparr>status = 0, size_written = 0\<rparr>"
    by simp
  from h p1 nw run p2 ie p3 show ?thesis by (simp only: simp_thms)
qed

end
